theory Spec2Isabelle
  imports Main "HOL-Library.Word" "HOL-Library.AList"
begin

section \<open>JavaScript strings\<close>

text \<open>
  A JavaScript string is a sequence of UTF-16 code units. String equality (\<open>===\<close>) is
  equality of the sequences, the empty string is the only falsy string, and a regular
  expression without the \<open>u\<close> flag reads the string one code unit at a time.
  Literals of the source are written with \<open>js\<close>; a code unit outside ASCII is given
  by its number.
\<close>

type_synonym jschar = "16 word"
type_synonym jsstring = "jschar list"

definition js :: "string \<Rightarrow> jsstring" where
  "js s = map of_char s"

text \<open>\<open>a || b\<close> on strings: the left operand unless it is falsy (empty).\<close>

definition or_else :: "jsstring \<Rightarrow> jsstring \<Rightarrow> jsstring" where
  "or_else a b = (if a \<noteq> [] then a else b)"

text \<open>
  An optional string (a property that may be \<open>undefined\<close>): truthiness, and \<open>||\<close> with
  a string default.
\<close>

definition truthy :: "jsstring option \<Rightarrow> bool" where
  "truthy v = (case v of None \<Rightarrow> False | Some s \<Rightarrow> s \<noteq> [])"

definition opt_or_else :: "jsstring option \<Rightarrow> jsstring \<Rightarrow> jsstring" where
  "opt_or_else v b = (case v of None \<Rightarrow> b | Some s \<Rightarrow> or_else s b)"

section \<open>JavaScript values\<close>

text \<open>
  A request body is what \<open>express.json()\<close> parsed: its fields are JSON values of any
  shape, or \<open>undefined\<close> when absent, and the handlers use them without a type check.
  A number is held as the string that \<open>Number.prototype.toString\<close> gives for it:
  different numbers have different strings, except that \<open>+0\<close> and \<open>-0\<close> both give
  \<open>0\<close>, and these two are \<open>===\<close>; a number of a JSON text is finite, so \<open>NaN\<close> does
  not occur. Strings that no number gives are in the type as well, and nothing is
  assumed about them. An object is the list of its own properties.
\<close>

datatype jsval =
    JUndefined
  | JNull
  | JBool bool
  | JNumber jsstring
  | JString jsstring
  | JArray "jsval list"
  | JObject "(jsstring \<times> jsval) list"

text \<open>\<open>ToBoolean\<close>: arrays and objects are truthy, also when empty.\<close>

fun truthy_value :: "jsval \<Rightarrow> bool" where
  "truthy_value JUndefined = False"
| "truthy_value JNull = False"
| "truthy_value (JBool b) = b"
| "truthy_value (JNumber r) = (r \<noteq> js ''0'')"
| "truthy_value (JString s) = (s \<noteq> [])"
| "truthy_value (JArray xs) = True"
| "truthy_value (JObject kvs) = True"

text \<open>\<open>!v\<close> and \<open>a || b\<close>.\<close>

definition falsy :: "jsval \<Rightarrow> bool" where
  "falsy v = (\<not> truthy_value v)"

definition value_or :: "jsval \<Rightarrow> jsval \<Rightarrow> jsval" where
  "value_or a b = (if truthy_value a then a else b)"

text \<open>
  \<open>ToString\<close>, which \<open>RegExp.prototype.test\<close> applies to its argument; \<open>None\<close> is
  the \<open>TypeError\<close> it throws. An array is joined with commas, \<open>null\<close> and
  \<open>undefined\<close> elements giving the empty string. An object of a JSON text has no
  callable property: when it has an own \<open>toString\<close> property that one is skipped,
  \<open>valueOf\<close> gives no primitive either, and the conversion throws; otherwise
  \<open>Object.prototype.toString\<close> answers.
\<close>

fun ToString :: "jsval \<Rightarrow> jsstring option"
  and join :: "jsval list \<Rightarrow> jsstring option" where
  "ToString JUndefined = Some (js ''undefined'')"
| "ToString JNull = Some (js ''null'')"
| "ToString (JBool b) = Some (if b then js ''true'' else js ''false'')"
| "ToString (JNumber r) = Some r"
| "ToString (JString s) = Some s"
| "ToString (JArray xs) = join xs"
| "ToString (JObject kvs) =
     (if js ''toString'' \<in> fst ` set kvs then None else Some (js ''[object Object]''))"
| "join [] = Some []"
| "join (x # xs) =
     (case (if x = JUndefined \<or> x = JNull then Some [] else ToString x) of
        None \<Rightarrow> None
      | Some a \<Rightarrow>
          (if xs = [] then Some a
           else case join xs of None \<Rightarrow> None | Some b \<Rightarrow> Some (a @ js '','' @ b)))"

text \<open>
  \<open>stored === v\<close>, where \<open>v\<close> comes from the body of the request being handled and
  \<open>stored\<close> from the Map: primitives are compared by value; an array or object of
  the body was created by parsing this request, so it is never the same object as a
  stored one.
\<close>

fun strict_equals :: "jsval \<Rightarrow> jsval \<Rightarrow> bool" where
  "strict_equals JUndefined JUndefined = True"
| "strict_equals JNull JNull = True"
| "strict_equals (JBool a) (JBool b) = (a = b)"
| "strict_equals (JNumber a) (JNumber b) = (a = b)"
| "strict_equals (JString a) (JString b) = (a = b)"
| "strict_equals _ _ = False"

fun is_primitive :: "jsval \<Rightarrow> bool" where
  "is_primitive (JArray xs) = False"
| "is_primitive (JObject kvs) = False"
| "is_primitive _ = True"

section \<open>Exceptions (exceptions/*.ts)\<close>

text \<open>
  \<open>BaseException extends Error\<close> carries status, code, message and optional details;
  \<open>NotFoundException\<close> and \<open>BadRequestException\<close> extend it with fixed status and
  code and a default message. \<open>Error\<close> is any other error: it has a message only.
  The class of an exception object is kept, since \<open>instanceof\<close> tests it.
\<close>

datatype exc_class = BaseExceptionClass | NotFoundExceptionClass | BadRequestExceptionClass

datatype 'd js_error =
    Error (e_message: jsstring)
  | Exception (e_class: exc_class) (e_status: int) (e_code: jsstring)
      (e_message: jsstring) (e_details: "'d option")

definition BaseException :: "int \<Rightarrow> jsstring \<Rightarrow> jsstring \<Rightarrow> 'd option \<Rightarrow> 'd js_error" where
  "BaseException st c m d = Exception BaseExceptionClass st c m d"

text \<open>A missing \<open>message\<close> argument (\<open>None\<close>) takes the constructor's default.\<close>

definition NotFoundException :: "jsstring option \<Rightarrow> 'd option \<Rightarrow> 'd js_error" where
  "NotFoundException m d =
     Exception NotFoundExceptionClass 404 (js ''NOT_FOUND'')
       (case m of None \<Rightarrow> js ''Recurso no encontrado'' | Some s \<Rightarrow> s) d"

definition BadRequestException :: "jsstring option \<Rightarrow> 'd option \<Rightarrow> 'd js_error" where
  "BadRequestException m d =
     Exception BadRequestExceptionClass 400 (js ''BAD_REQUEST'')
       (case m of None \<Rightarrow> js ''Solicitud inv'' @ [0xE1] @ js ''lida'' | Some s \<Rightarrow> s) d"

fun instanceof_BaseException :: "'d js_error \<Rightarrow> bool" where
  "instanceof_BaseException (Error _) = False"
| "instanceof_BaseException (Exception _ _ _ _ _) = True"

fun instanceof_NotFoundException :: "'d js_error \<Rightarrow> bool" where
  "instanceof_NotFoundException (Exception NotFoundExceptionClass _ _ _ _) = True"
| "instanceof_NotFoundException _ = False"

fun instanceof_BadRequestException :: "'d js_error \<Rightarrow> bool" where
  "instanceof_BadRequestException (Exception BadRequestExceptionClass _ _ _ _) = True"
| "instanceof_BadRequestException _ = False"

section \<open>The response envelope (types/api-response.ts)\<close>

record ('t, 'd) ApiResponse =
  traceId :: jsstring
  status :: int
  code :: jsstring
  message :: jsstring
  data :: "'t option"
  details :: "'d option"

text \<open>
  The builder holds one response object; every setter assigns one field of it and
  returns the builder, \<open>build\<close> returns the object.
\<close>

definition ApiResponseBuilder :: "jsstring \<Rightarrow> ('t, 'd) ApiResponse" where
  "ApiResponseBuilder tid =
     \<lparr>traceId = tid, status = 200, code = js ''SUCCESS'', message = [],
      data = None, details = None\<rparr>"

definition setStatus :: "int \<Rightarrow> ('t, 'd) ApiResponse \<Rightarrow> ('t, 'd) ApiResponse" where
  "setStatus s r = r\<lparr>status := s\<rparr>"

definition setCode :: "jsstring \<Rightarrow> ('t, 'd) ApiResponse \<Rightarrow> ('t, 'd) ApiResponse" where
  "setCode c r = r\<lparr>code := c\<rparr>"

definition setMessage :: "jsstring \<Rightarrow> ('t, 'd) ApiResponse \<Rightarrow> ('t, 'd) ApiResponse" where
  "setMessage m r = r\<lparr>message := m\<rparr>"

definition setData :: "'t \<Rightarrow> ('t, 'd) ApiResponse \<Rightarrow> ('t, 'd) ApiResponse" where
  "setData x r = r\<lparr>data := Some x\<rparr>"

definition setDetails :: "'d \<Rightarrow> ('t, 'd) ApiResponse \<Rightarrow> ('t, 'd) ApiResponse" where
  "setDetails x r = r\<lparr>details := Some x\<rparr>"

definition build :: "('t, 'd) ApiResponse \<Rightarrow> ('t, 'd) ApiResponse" where
  "build r = r"

text \<open>A chain of setter calls, in call order, between the constructor and \<open>build\<close>.\<close>

datatype ('t, 'd) setter =
    SetStatus int | SetCode jsstring | SetMessage jsstring | SetData 't | SetDetails 'd

fun call_setter :: "('t, 'd) ApiResponse \<Rightarrow> ('t, 'd) setter \<Rightarrow> ('t, 'd) ApiResponse" where
  "call_setter r (SetStatus s) = setStatus s r"
| "call_setter r (SetCode c) = setCode c r"
| "call_setter r (SetMessage m) = setMessage m r"
| "call_setter r (SetData x) = setData x r"
| "call_setter r (SetDetails x) = setDetails x r"

definition build_chain :: "jsstring \<Rightarrow> ('t, 'd) setter list \<Rightarrow> ('t, 'd) ApiResponse" where
  "build_chain tid cs = build (foldl call_setter (ApiResponseBuilder tid) cs)"

fun is_SetStatus :: "('t, 'd) setter \<Rightarrow> bool" where
  "is_SetStatus (SetStatus _) = True" | "is_SetStatus _ = False"

fun is_SetCode :: "('t, 'd) setter \<Rightarrow> bool" where
  "is_SetCode (SetCode _) = True" | "is_SetCode _ = False"

fun is_SetMessage :: "('t, 'd) setter \<Rightarrow> bool" where
  "is_SetMessage (SetMessage _) = True" | "is_SetMessage _ = False"

fun is_SetData :: "('t, 'd) setter \<Rightarrow> bool" where
  "is_SetData (SetData _) = True" | "is_SetData _ = False"

fun is_SetDetails :: "('t, 'd) setter \<Rightarrow> bool" where
  "is_SetDetails (SetDetails _) = True" | "is_SetDetails _ = False"

section \<open>Requests and middleware (middleware/*.ts)\<close>

text \<open>
  Of a request the code reads the headers, the route parameter \<open>id\<close>, the body fields
  \<open>email\<close> and \<open>name\<close>, and \<open>traceId\<close>, which the trace middleware assigns.
  A header that is absent is \<open>None\<close>; a body field that is absent is \<open>JUndefined\<close>.
\<close>

record request =
  headers :: "jsstring \<rightharpoonup> jsstring"
  req_traceId :: jsstring
  params_id :: jsstring
  body_email :: jsval
  body_name :: jsval

record response_headers =
  res_headers :: "jsstring \<rightharpoonup> jsstring"

text \<open>
  \<open>traceMiddleware\<close>: \<open>uuid\<close> is the value a call of \<open>uuidv4()\<close> returns. The result is
  the request and the response as \<open>next()\<close> receives them.
\<close>

definition traceMiddleware ::
  "jsstring \<Rightarrow> request \<Rightarrow> response_headers \<Rightarrow> request \<times> response_headers" where
  "traceMiddleware uuid req res =
     (let req' = req\<lparr>req_traceId := opt_or_else (headers req (js ''x-trace-id'')) uuid\<rparr>;
          res' = res\<lparr>res_headers := (res_headers res)(js ''x-trace-id'' \<mapsto> req_traceId req')\<rparr>
      in (req', res'))"

text \<open>
  \<open>errorHandler\<close>: the result is the HTTP status passed to \<open>res.status\<close> and the object
  passed to \<open>json\<close>. The object literal has no \<open>data\<close> key.
\<close>

definition errorHandler :: "'d js_error \<Rightarrow> request \<Rightarrow> int \<times> ('t, 'd) ApiResponse" where
  "errorHandler error req =
     (let response =
        \<lparr>traceId = req_traceId req,
         status = (if instanceof_BaseException error then e_status error else 500),
         code = (if instanceof_BaseException error then e_code error
                 else js ''INTERNAL_SERVER_ERROR''),
         message = or_else (e_message error) (js ''Error interno del servidor''),
         data = None,
         details = (if instanceof_BaseException error then e_details error else None)\<rparr>
      in (status response, response))"

section \<open>Regular expressions\<close>

text \<open>
  The pattern of the routes is built from character classes, literal characters,
  concatenation and \<open>+\<close>. \<open>rx\<close> has these and what their derivatives need.
  \<open>matches r s\<close> says that the whole of \<open>s\<close> matches \<open>r\<close>; it is computed with
  derivatives: \<open>deriv c r\<close> matches what is left of a match of \<open>r\<close> after a first
  code unit \<open>c\<close>.
\<close>

datatype rx =
    Zero
  | One
  | Atom "jschar \<Rightarrow> bool"
  | Alt rx rx
  | Seq rx rx
  | Star rx

definition Plus :: "rx \<Rightarrow> rx" where
  "Plus r = Seq r (Star r)"

fun nullable :: "rx \<Rightarrow> bool" where
  "nullable Zero = False"
| "nullable One = True"
| "nullable (Atom p) = False"
| "nullable (Alt r s) = (nullable r \<or> nullable s)"
| "nullable (Seq r s) = (nullable r \<and> nullable s)"
| "nullable (Star r) = True"

fun deriv :: "jschar \<Rightarrow> rx \<Rightarrow> rx" where
  "deriv c Zero = Zero"
| "deriv c One = Zero"
| "deriv c (Atom p) = (if p c then One else Zero)"
| "deriv c (Alt r s) = Alt (deriv c r) (deriv c s)"
| "deriv c (Seq r s) =
     (if nullable r then Alt (Seq (deriv c r) s) (deriv c s) else Seq (deriv c r) s)"
| "deriv c (Star r) = Seq (deriv c r) (Star r)"

fun matches :: "rx \<Rightarrow> jsstring \<Rightarrow> bool" where
  "matches r [] = nullable r"
| "matches r (c # s) = matches (deriv c r) s"

text \<open>
  The language of a pattern, as the reference for \<open>matches\<close>: the set of strings that
  match it as a whole.
\<close>

inductive_set star :: "jsstring set \<Rightarrow> jsstring set" for A :: "jsstring set" where
  star_empty: "[] \<in> star A"
| star_step: "u \<in> A \<Longrightarrow> v \<in> star A \<Longrightarrow> u @ v \<in> star A"

fun lang :: "rx \<Rightarrow> jsstring set" where
  "lang Zero = {}"
| "lang One = {[]}"
| "lang (Atom p) = {[c] | c. p c}"
| "lang (Alt r s) = lang r \<union> lang s"
| "lang (Seq r s) = {u @ v | u v. u \<in> lang r \<and> v \<in> lang s}"
| "lang (Star r) = star (lang r)"

text \<open>
  The class \<open>\s\<close> of ECMAScript: white space and line terminators. \<open>[^\s@]\<close> is
  every code unit that is neither in \<open>\s\<close> nor \<open>@\<close>.
\<close>

definition is_space :: "jschar \<Rightarrow> bool" where
  "is_space c =
     (c = 0x09 \<or> c = 0x0A \<or> c = 0x0B \<or> c = 0x0C \<or> c = 0x0D \<or> c = 0x20 \<or> c = 0xA0
      \<or> c = 0x1680 \<or> (0x2000 \<le> c \<and> c \<le> 0x200A) \<or> c = 0x2028 \<or> c = 0x2029
      \<or> c = 0x202F \<or> c = 0x205F \<or> c = 0x3000 \<or> c = 0xFEFF)"

definition not_space_at :: "jschar \<Rightarrow> bool" where
  "not_space_at c = (\<not> is_space c \<and> c \<noteq> 0x40)"

text \<open>
  \<open>/^[^\s@]+@[^\s@]+\.[^\s@]+$/\<close>. The pattern is anchored at both ends and has no
  flags, so \<open>emailRegex.test(s)\<close> on a string is a match of the whole string.
\<close>

definition emailRegex :: rx where
  "emailRegex =
     Seq (Plus (Atom not_space_at))
       (Seq (Atom (\<lambda>c. c = 0x40))
         (Seq (Plus (Atom not_space_at))
           (Seq (Atom (\<lambda>c. c = 0x2E))
             (Plus (Atom not_space_at)))))"

definition test :: "rx \<Rightarrow> jsstring \<Rightarrow> bool" where
  "test r s = matches r s"

text \<open>
  \<open>r.test(v)\<close> on any value: the value is converted to a string first, and \<open>None\<close>
  is the \<open>TypeError\<close> of a conversion that throws.
\<close>

definition RegExp_test :: "rx \<Rightarrow> jsval \<Rightarrow> bool option" where
  "RegExp_test r v = map_option (test r) (ToString v)"

section \<open>The users router (routes/users.routes.ts)\<close>

text \<open>
  A stored user. \<open>name\<close> and \<open>email\<close> hold whatever value the request body had:
  the \<open>User\<close> type is erased at run time.
\<close>

record User =
  user_id :: jsstring
  name :: jsval
  email :: jsval
  createdAt :: int

text \<open>
  The in-memory \<open>Map<string, User>\<close>: an association list in insertion order.
  \<open>Map_set\<close> replaces the value of a key that is present, in place, and appends a
  new key at the end; \<open>Map_delete\<close> removes the key; \<open>Map_values\<close> lists the values
  in insertion order. The keys of a Map are distinct.
\<close>

type_synonym users_map = "(jsstring \<times> User) list"

definition Map_get :: "users_map \<Rightarrow> jsstring \<Rightarrow> User option" where
  "Map_get m k = map_of m k"

definition Map_has :: "users_map \<Rightarrow> jsstring \<Rightarrow> bool" where
  "Map_has m k = (map_of m k \<noteq> None)"

definition Map_set :: "jsstring \<Rightarrow> User \<Rightarrow> users_map \<Rightarrow> users_map" where
  "Map_set k v m = AList.update k v m"

definition Map_delete :: "jsstring \<Rightarrow> users_map \<Rightarrow> users_map" where
  "Map_delete k m = AList.delete k m"

definition Map_values :: "users_map \<Rightarrow> User list" where
  "Map_values m = map snd m"

text \<open>The details object of the missing-fields error: \<open>{ missing_fields: [...] }\<close>.\<close>

datatype details = Missing_fields "jsstring list"

text \<open>
  A handler either passes an error to \<open>next\<close> (\<open>Inl\<close>: everything thrown inside its
  \<open>try\<close> ends there) or sends \<open>res.status(n).json(response)\<close> (\<open>Inr (n, response)\<close>);
  the second component of the result is the Map after the call.
\<close>

type_synonym handler_result =
  "(details js_error + int \<times> (User, details) ApiResponse) \<times> users_map"

definition not_found_message :: "jsstring \<Rightarrow> jsstring" where
  "not_found_message userId = js ''Usuario '' @ userId @ js '' no encontrado''"

text \<open>
  The \<open>TypeError\<close> of a conversion to string that throws: an \<open>Error\<close> that is no
  \<open>BaseException\<close>.
\<close>

definition cannot_convert :: "details js_error" where
  "cannot_convert = Error (js ''Cannot convert object to primitive value'')"

definition get_user :: "request \<Rightarrow> users_map \<Rightarrow> handler_result" where
  "get_user req users =
     (let userId = params_id req in
      case Map_get users userId of
        None \<Rightarrow> (Inl (NotFoundException (Some (not_found_message userId)) None), users)
      | Some user \<Rightarrow>
          (Inr (200,
             build (setData user (setMessage (js ''Usuario encontrado exitosamente'')
               (setCode (js ''USER_FOUND'') (setStatus 200
                 (ApiResponseBuilder (req_traceId req))))))), users))"

definition body_field :: "request \<Rightarrow> jsstring \<Rightarrow> jsval" where
  "body_field req field =
     (if field = js ''email'' then body_email req
      else if field = js ''name'' then body_name req else JUndefined)"

text \<open>
  \<open>post_users\<close>: \<open>uuid\<close> is what \<open>uuidv4()\<close> returns and \<open>now\<close> what \<open>new Date()\<close>
  gives.
\<close>

definition post_users :: "jsstring \<Rightarrow> int \<Rightarrow> request \<Rightarrow> users_map \<Rightarrow> handler_result" where
  "post_users uuid now req users =
     (let email' = body_email req; name' = body_name req in
      if falsy email' \<or> falsy name' then
        (Inl (BadRequestException (Some (js ''Email y nombre son requeridos''))
           (Some (Missing_fields
              (filter (\<lambda>field. falsy (body_field req field))
                 [js ''email'', js ''name''])))), users)
      else
        (case RegExp_test emailRegex email' of
           None \<Rightarrow> (Inl cannot_convert, users)
         | Some matched \<Rightarrow>
             if \<not> matched then
               (Inl (BadRequestException
                  (Some (js ''Formato de email inv'' @ [0xE1] @ js ''lido'')) None), users)
             else if list_ex (\<lambda>user. strict_equals (email user) email')
                       (Map_values users) then
               (Inl (BadRequestException
                  (Some (js ''El email ya est'' @ [0xE1] @ js '' registrado'')) None), users)
             else
               (let newUser =
                      \<lparr>user_id = uuid, name = name', email = email', createdAt = now\<rparr>;
                    users' = Map_set (user_id newUser) newUser users
                in (Inr (201,
                      build (setData newUser (setMessage (js ''Usuario creado exitosamente'')
                        (setCode (js ''USER_CREATED'') (setStatus 201
                          (ApiResponseBuilder (req_traceId req))))))), users'))))"

text \<open>
  The block \<open>if (email) { ... }\<close> of the \<open>PUT\<close> handler: the error it throws, if any.
\<close>

definition put_email_block :: "jsval \<Rightarrow> jsstring \<Rightarrow> users_map \<Rightarrow> details js_error option" where
  "put_email_block email' userId users =
     (if truthy_value email' then
        (case RegExp_test emailRegex email' of
           None \<Rightarrow> Some cannot_convert
         | Some matched \<Rightarrow>
             if \<not> matched then
               Some (BadRequestException
                  (Some (js ''Formato de email inv'' @ [0xE1] @ js ''lido'')) None)
             else if list_ex (\<lambda>user. strict_equals (email user) email'
                                     \<and> user_id user \<noteq> userId) (Map_values users) then
               Some (BadRequestException
                  (Some (js ''El email ya est'' @ [0xE1] @ js '' registrado'')) None)
             else None)
      else None)"

definition put_user :: "request \<Rightarrow> users_map \<Rightarrow> handler_result" where
  "put_user req users =
     (let userId = params_id req in
      case Map_get users userId of
        None \<Rightarrow> (Inl (NotFoundException (Some (not_found_message userId)) None), users)
      | Some existingUser \<Rightarrow>
          (let email' = body_email req; name' = body_name req in
           if falsy email' \<and> falsy name' then
             (Inl (BadRequestException
                (Some (js ''Se requiere al menos un campo para actualizar'')) None), users)
           else
             (case put_email_block email' userId users of
                Some e \<Rightarrow> (Inl e, users)
              | None \<Rightarrow>
                  (let updatedUser = existingUser
                         \<lparr>name := value_or name' (name existingUser),
                          email := value_or email' (email existingUser)\<rparr>;
                       users' = Map_set userId updatedUser users
                   in (Inr (200,
                         build (setData updatedUser
                           (setMessage (js ''Usuario actualizado exitosamente'')
                             (setCode (js ''USER_UPDATED'') (setStatus 200
                               (ApiResponseBuilder (req_traceId req))))))), users')))))"

definition delete_user :: "request \<Rightarrow> users_map \<Rightarrow> handler_result" where
  "delete_user req users =
     (let userId = params_id req; exists = Map_has users userId in
      if \<not> exists then
        (Inl (NotFoundException (Some (not_found_message userId)) None), users)
      else
        (let users' = Map_delete userId users in
         (Inr (200,
            build (setMessage (js ''Usuario eliminado exitosamente'')
              (setCode (js ''USER_DELETED'') (setStatus 200
                (ApiResponseBuilder (req_traceId req)))))), users')))"

text \<open>
  The states of the Map: it starts empty and only the three writing handlers change it
  (the two reading handlers leave it as it is).
\<close>

inductive reachable :: "users_map \<Rightarrow> bool" where
  reach_empty: "reachable []"
| reach_post: "reachable users \<Longrightarrow> reachable (snd (post_users uuid now req users))"
| reach_put: "reachable users \<Longrightarrow> reachable (snd (put_user req users))"
| reach_delete: "reachable users \<Longrightarrow> reachable (snd (delete_user req users))"

section \<open>The task managers (clean-code exercise)\<close>

text \<open>
  \<open>TaskMgr\<close> (taskBase.ts) keeps its tasks in the array \<open>d\<close>. \<open>add\<close> takes any
  object: its \<open>title\<close> and \<open>p\<close> may be missing. The stored object is the given one
  with \<open>id\<close>, \<open>st\<close> and \<open>ct\<close> set. The fresh id (\<open>Math.random().toString()\<close>) and
  the date (\<open>new Date()\<close>) are arguments of the model.
\<close>

record any_task =
  t_title :: "jsstring option"
  t_p :: "bool option"

record stored_task = any_task +
  t_id :: jsstring
  st :: jsstring
  ct :: int

definition stored :: "any_task \<Rightarrow> jsstring \<Rightarrow> int \<Rightarrow> stored_task" where
  "stored t newid now =
     \<lparr>t_title = t_title t, t_p = t_p t, t_id = newid, st = js ''pending'', ct = now\<rparr>"

text \<open>
  \<open>find_index P xs\<close> is the position of the element \<open>Array.prototype.find\<close> returns:
  the first one that satisfies \<open>P\<close>. The caller assigns to a field of that object,
  which changes the array at that position and nowhere else.
\<close>

fun find_index :: "('a \<Rightarrow> bool) \<Rightarrow> 'a list \<Rightarrow> nat option" where
  "find_index P [] = None"
| "find_index P (x # xs) =
     (if P x then Some 0 else map_option Suc (find_index P xs))"

definition TaskMgr_add ::
  "any_task \<Rightarrow> jsstring \<Rightarrow> int \<Rightarrow> stored_task list \<Rightarrow> bool \<times> stored_task list" where
  "TaskMgr_add t newid now d =
     (if \<not> truthy (t_title t) then (False, d)
      else if t_p t = Some True then (True, stored t newid now # d)
      else (True, d @ [stored t newid now]))"

definition TaskMgr_done :: "jsstring \<Rightarrow> stored_task list \<Rightarrow> bool \<times> stored_task list" where
  "TaskMgr_done i d =
     (case find_index (\<lambda>x. t_id x = i) d of
        Some k \<Rightarrow> (True, d[k := (d ! k)\<lparr>st := js ''completed''\<rparr>])
      | None \<Rightarrow> (False, d))"

definition TaskMgr_getAll :: "stored_task list \<Rightarrow> stored_task list" where
  "TaskMgr_getAll d = d"

text \<open>\<open>TaskManager\<close> (taskRefactor.ts), the refactored class.\<close>

datatype TaskStatus = PENDING | COMPLETED

fun TaskStatus_value :: "TaskStatus \<Rightarrow> jsstring" where
  "TaskStatus_value PENDING = js ''pending''"
| "TaskStatus_value COMPLETED = js ''completed''"

record Task =
  task_id :: jsstring
  title :: jsstring
  isPriority :: bool
  task_status :: TaskStatus
  task_createdAt :: int

definition TaskManager_addTask ::
  "jsstring \<Rightarrow> bool \<Rightarrow> jsstring \<Rightarrow> int \<Rightarrow> Task list \<Rightarrow> bool \<times> Task list" where
  "TaskManager_addTask ttl prio newid now tasks =
     (let newTask = \<lparr>task_id = newid, title = ttl, isPriority = prio,
                      task_status = PENDING, task_createdAt = now\<rparr>
      in if prio then (True, newTask # tasks) else (True, tasks @ [newTask]))"

definition TaskManager_completeTask :: "jsstring \<Rightarrow> Task list \<Rightarrow> bool \<times> Task list" where
  "TaskManager_completeTask taskId tasks =
     (case find_index (\<lambda>task. task_id task = taskId) tasks of
        Some k \<Rightarrow> (True, tasks[k := (tasks ! k)\<lparr>task_status := COMPLETED\<rparr>])
      | None \<Rightarrow> (False, tasks))"

definition TaskManager_getAllTasks :: "Task list \<Rightarrow> Task list" where
  "TaskManager_getAllTasks tasks = tasks"

section \<open>The order processors (cohesion and coupling examples)\<close>

text \<open>
  Prices and quantities are JavaScript numbers. The totals are written over any type
  with \<open>0\<close>, \<open>+\<close> and \<open>*\<close>, with no law assumed of them, so that what is proved of the
  fold holds for floating-point arithmetic as well as for the integers.
\<close>

record 'n Producto =
  prod_id :: jsstring
  nombre :: jsstring
  precio :: 'n
  cantidad :: 'n

text \<open>
  Example 1, \<open>GestorProcesoCompra\<close>, with the \<open>Inventario\<close> it creates for itself.
  What the methods print, store and send is not part of the state.
\<close>

definition Inventario_verificarStock :: "jsstring \<Rightarrow> bool" where
  "Inventario_verificarStock productoId = True"

record 'n GestorProcesoCompra =
  g_productos :: "'n Producto list"
  g_precioTotal :: 'n
  g_emailCliente :: jsstring

definition new_GestorProcesoCompra :: "jsstring \<Rightarrow> ('n::zero) GestorProcesoCompra" where
  "new_GestorProcesoCompra mail = \<lparr>g_productos = [], g_precioTotal = 0, g_emailCliente = mail\<rparr>"

definition Gestor_agregarProducto ::
  "jsstring \<Rightarrow> jsstring \<Rightarrow> 'n \<Rightarrow> 'n \<Rightarrow> 'n GestorProcesoCompra \<Rightarrow> 'n GestorProcesoCompra" where
  "Gestor_agregarProducto i nom pr cant g =
     g\<lparr>g_productos := g_productos g
          @ [\<lparr>prod_id = i, nombre = nom, precio = pr, cantidad = cant\<rparr>]\<rparr>"

definition calcularPrecioTotal ::
  "('n::{zero,plus,times}) GestorProcesoCompra \<Rightarrow> 'n GestorProcesoCompra" where
  "calcularPrecioTotal g =
     g\<lparr>g_precioTotal :=
         foldl (\<lambda>total prod. total + precio prod * cantidad prod) 0 (g_productos g)\<rparr>"

definition procesarCompra ::
  "('n::{zero,plus,times}) GestorProcesoCompra \<Rightarrow> unit js_error + 'n GestorProcesoCompra" where
  "procesarCompra g =
     (case find (\<lambda>producto. \<not> Inventario_verificarStock (prod_id producto)) (g_productos g) of
        Some producto \<Rightarrow> Inl (Error (js ''Sin stock para el producto '' @ nombre producto))
      | None \<Rightarrow> Inr (calcularPrecioTotal g))"

definition obtenerTotal :: "'n GestorProcesoCompra \<Rightarrow> 'n" where
  "obtenerTotal g = g_precioTotal g"

text \<open>
  Example 2, \<open>Orden\<close>: the inventory is injected; of \<open>IInventario\<close> the order's total
  depends on \<open>verificarStock\<close> only. \<open>InventarioDB\<close> is the implementation the example
  gives.
\<close>

record 'n Orden =
  productos :: "'n Producto list"
  precioTotal :: 'n

definition new_Orden :: "('n::zero) Orden" where
  "new_Orden = \<lparr>productos = [], precioTotal = 0\<rparr>"

definition InventarioDB_verificarStock :: "jsstring \<Rightarrow> bool" where
  "InventarioDB_verificarStock productoId = True"

definition recalcularTotal :: "('n::{zero,plus,times}) Orden \<Rightarrow> 'n Orden" where
  "recalcularTotal orden =
     orden\<lparr>precioTotal :=
         foldl (\<lambda>total prod. total + precio prod * cantidad prod) 0 (productos orden)\<rparr>"

definition agregarProducto ::
  "(jsstring \<Rightarrow> bool) \<Rightarrow> ('n::{zero,plus,times}) Producto \<Rightarrow> 'n Orden
     \<Rightarrow> unit js_error + 'n Orden" where
  "agregarProducto verificarStock producto orden =
     (if verificarStock (prod_id producto) then
        Inr (recalcularTotal (orden\<lparr>productos := productos orden @ [producto]\<rparr>))
      else Inl (Error (js ''Sin stock para producto: '' @ nombre producto)))"

definition getTotal :: "'n Orden \<Rightarrow> 'n" where
  "getTotal orden = precioTotal orden"

text \<open>
  The states the two classes can be in: a \<open>GestorProcesoCompra\<close> starts with no
  product and total 0 and changes by \<open>agregarProducto\<close> and by a \<open>procesarCompra\<close>
  that returns; an \<open>Orden\<close> starts the same way and changes by an \<open>agregarProducto\<close>
  that returns (one that throws leaves it as it was, and \<open>procesar\<close> changes neither
  the products nor the total).
\<close>

inductive gestor_reachable :: "('n::{zero,plus,times}) GestorProcesoCompra \<Rightarrow> bool" where
  gestor_new: "gestor_reachable (new_GestorProcesoCompra mail)"
| gestor_agregar:
    "gestor_reachable g \<Longrightarrow> gestor_reachable (Gestor_agregarProducto i nom pr cant g)"
| gestor_procesar:
    "gestor_reachable g \<Longrightarrow> procesarCompra g = Inr g' \<Longrightarrow> gestor_reachable g'"

inductive orden_reachable ::
  "(jsstring \<Rightarrow> bool) \<Rightarrow> ('n::{zero,plus,times}) Orden \<Rightarrow> bool"
  for verificarStock :: "jsstring \<Rightarrow> bool" where
  orden_new: "orden_reachable verificarStock new_Orden"
| orden_agregar:
    "orden_reachable verificarStock orden \<Longrightarrow>
     agregarProducto verificarStock producto orden = Inr orden' \<Longrightarrow>
     orden_reachable verificarStock orden'"

text \<open>
  The extended solution: \<open>Orden\<close> with a state, asynchronous dependencies and
  \<open>InventarioReal\<close>. Each \<open>await\<close> is on a promise that is already settled, so the
  model has the awaited value in its place.
\<close>

datatype EstadoOrden = CREADA | PROCESADA | ERROR

record 'n OrdenAsync =
  oa_productos :: "'n Producto list"
  oa_precioTotal :: 'n
  oa_estado :: EstadoOrden

definition InventarioReal_verificarStock :: "jsstring \<Rightarrow> bool" where
  "InventarioReal_verificarStock productoId = True"

definition OrdenAsync_recalcularTotal :: "('n::{zero,plus,times}) OrdenAsync \<Rightarrow> 'n OrdenAsync" where
  "OrdenAsync_recalcularTotal orden =
     orden\<lparr>oa_precioTotal :=
         foldl (\<lambda>total prod. total + precio prod * cantidad prod) 0 (oa_productos orden)\<rparr>"

definition OrdenAsync_agregarProducto ::
  "(jsstring \<Rightarrow> bool) \<Rightarrow> ('n::{zero,plus,times}) Producto \<Rightarrow> 'n OrdenAsync
     \<Rightarrow> unit js_error + 'n OrdenAsync" where
  "OrdenAsync_agregarProducto verificarStock producto orden =
     (let hayStock = verificarStock (prod_id producto) in
      if \<not> hayStock then
        Inl (Error (js ''Sin stock para el producto: '' @ nombre producto))
      else
        Inr (OrdenAsync_recalcularTotal
               (orden\<lparr>oa_productos := oa_productos orden @ [producto]\<rparr>)))"

section \<open>Notions used in the statements\<close>

text \<open>
  What holds of the Map in every state: its keys are distinct (it is a Map), every
  user is stored under its own id, and two entries have the same email only when that
  email is an array or an object.
\<close>

definition users_invariant :: "users_map \<Rightarrow> bool" where
  "users_invariant users \<longleftrightarrow>
     distinct (map fst users)
     \<and> list_all (\<lambda>(k, u). user_id u = k) users
     \<and> list_all (\<lambda>(k, u). list_all (\<lambda>(k', u').
           is_primitive (email u) \<and> email u = email u' \<longrightarrow> k = k') users) users"

text \<open>Sample data: a Map with one user, and a request about another user.\<close>

definition example_users :: users_map where
  "example_users =
     [(js ''u1'', \<lparr>user_id = js ''u1'', name = JString (js ''Ana''),
                   email = JString (js ''ana@b.c''), createdAt = 0\<rparr>)]"

definition example_request :: request where
  "example_request =
     \<lparr>headers = Map.empty, req_traceId = js ''t'', params_id = js ''u2'',
      body_email = JString (js ''bo@b.c''), body_name = JString (js ''Bo'')\<rparr>"

text \<open>
  The body \<open>{"email": ["a@b.c"], "name": "Ana"}\<close>, the body
  \<open>{"email": {"toString": 1}, "name": "Ana"}\<close>, and the Map after the first of them
  was posted once.
\<close>

definition array_email_request :: request where
  "array_email_request =
     \<lparr>headers = Map.empty, req_traceId = js ''t'', params_id = [],
      body_email = JArray [JString (js ''a@b.c'')], body_name = JString (js ''Ana'')\<rparr>"

definition object_email_request :: request where
  "object_email_request =
     \<lparr>headers = Map.empty, req_traceId = js ''t'', params_id = [],
      body_email = JObject [(js ''toString'', JNumber (js ''1''))],
      body_name = JString (js ''Ana'')\<rparr>"

definition array_email_users :: users_map where
  "array_email_users =
     [(js ''u1'', \<lparr>user_id = js ''u1'', name = JString (js ''Ana''),
                   email = JArray [JString (js ''a@b.c'')], createdAt = 0\<rparr>)]"

text \<open>Sample tasks (two of them share an id) and sample products.\<close>

definition example_tasks :: "Task list" where
  "example_tasks =
     [\<lparr>task_id = js ''a'', title = js ''Tarea 1'', isPriority = True,
       task_status = PENDING, task_createdAt = 1\<rparr>,
      \<lparr>task_id = js ''b'', title = js ''Tarea 2'', isPriority = False,
       task_status = PENDING, task_createdAt = 2\<rparr>,
      \<lparr>task_id = js ''b'', title = js ''Tarea 3'', isPriority = False,
       task_status = PENDING, task_createdAt = 3\<rparr>]"

definition example_d :: "stored_task list" where
  "example_d =
     [\<lparr>t_title = Some (js ''Tarea 1''), t_p = Some True, t_id = js ''0.1'',
       st = js ''pending'', ct = 1\<rparr>]"

definition laptop :: "int Producto" where
  "laptop = \<lparr>prod_id = js ''1'', nombre = js ''Laptop'', precio = 1200, cantidad = 1\<rparr>"

definition mouse :: "int Producto" where
  "mouse = \<lparr>prod_id = js ''2'', nombre = js ''Mouse'', precio = 50, cantidad = 2\<rparr>"

text \<open>
  When a \<open>TaskMgr\<close> object and a \<open>Task\<close> stand for the same task: same title, same
  priority, same status, and (the two generators being arguments of the model) same id.
\<close>

definition same_task :: "stored_task \<Rightarrow> Task \<Rightarrow> bool" where
  "same_task x t \<longleftrightarrow>
     t_title x = Some (title t) \<and> (t_p x = Some True) = isPriority t
     \<and> st x = TaskStatus_value (task_status t) \<and> t_id x = task_id t"

section \<open>The pattern matcher\<close>

text \<open>
  \<open>matches\<close> decides the language of a pattern, and the email pattern accepts exactly
  the strings \<open>a@b.c\<close> with \<open>a\<close>, \<open>b\<close>, \<open>c\<close> non-empty and free of white space and \<open>@\<close>.
\<close>

lemma nullable_lang: "nullable r \<longleftrightarrow> [] \<in> lang r"
  by (induction r) (auto intro: star.intros)

lemma star_cons:
  "c # s \<in> star A \<longleftrightarrow> (\<exists>u v. s = u @ v \<and> c # u \<in> A \<and> v \<in> star A)"
proof
  assume "c # s \<in> star A"
  then show "\<exists>u v. s = u @ v \<and> c # u \<in> A \<and> v \<in> star A"
  proof (induction "c # s" arbitrary: s rule: star.induct)
    case (star_step u v)
    show ?case
    proof (cases u)
      case Nil
      with star_step show ?thesis by simp
    next
      case (Cons a u')
      with star_step.hyps show ?thesis by auto
    qed
  qed
next
  assume "\<exists>u v. s = u @ v \<and> c # u \<in> A \<and> v \<in> star A"
  then obtain u v where "s = u @ v" "c # u \<in> A" "v \<in> star A" by blast
  then show "c # s \<in> star A"
    using star_step [of "c # u" A v] by simp
qed

lemma lang_deriv: "lang (deriv c r) = {s. c # s \<in> lang r}"
proof (induction r)
  case (Seq r1 r2)
  have "{s. c # s \<in> lang (Seq r1 r2)} =
          {u @ v | u v. c # u \<in> lang r1 \<and> v \<in> lang r2}
          \<union> (if [] \<in> lang r1 then {s. c # s \<in> lang r2} else {})"
    by (auto simp: Cons_eq_append_conv)
  with Seq show ?case
    by (auto simp: nullable_lang)
next
  case (Star r)
  then show ?case by (auto simp: star_cons)
qed auto

lemma matches_lang: "matches r s \<longleftrightarrow> s \<in> lang r"
  by (induction s arbitrary: r) (simp_all add: nullable_lang lang_deriv)

lemma star_atoms: "star {[c] | c. p c} = {w. \<forall>x \<in> set w. p x}"
proof (intro set_eqI iffI)
  fix w assume "w \<in> star {[c] | c. p c}"
  then show "w \<in> {w. \<forall>x \<in> set w. p x}"
    by (induction rule: star.induct) auto
next
  fix w assume "w \<in> {w. \<forall>x \<in> set w. p x}"
  then show "w \<in> star {[c] | c. p c}"
  proof (induction w)
    case Nil
    show ?case by (rule star_empty)
  next
    case (Cons a w)
    then have "[a] \<in> {[c] | c. p c}" "w \<in> star {[c] | c. p c}" by auto
    then have "[a] @ w \<in> star {[c] | c. p c}" by (rule star_step)
    then show ?case by simp
  qed
qed

lemma lang_Plus_Atom: "lang (Plus (Atom p)) = {w. w \<noteq> [] \<and> (\<forall>x \<in> set w. p x)}"
proof (intro set_eqI iffI)
  fix w assume "w \<in> lang (Plus (Atom p))"
  then show "w \<in> {w. w \<noteq> [] \<and> (\<forall>x \<in> set w. p x)}"
    by (auto simp: Plus_def star_atoms)
next
  fix w assume "w \<in> {w. w \<noteq> [] \<and> (\<forall>x \<in> set w. p x)}"
  then obtain a v where "w = [a] @ v" "p a" "\<forall>x \<in> set v. p x"
    by (cases w) auto
  then have "[a] \<in> lang (Atom p)" "v \<in> lang (Star (Atom p))" "w = [a] @ v"
    by (simp_all add: star_atoms)
  then show "w \<in> lang (Plus (Atom p))"
    unfolding Plus_def lang.simps(5) by blast
qed

lemma in_lang_Seq: "w \<in> lang (Seq r s) \<longleftrightarrow> (\<exists>u v. w = u @ v \<and> u \<in> lang r \<and> v \<in> lang s)"
  by auto

lemma in_lang_Plus_Atom: "w \<in> lang (Plus (Atom p)) \<longleftrightarrow> w \<noteq> [] \<and> (\<forall>x \<in> set w. p x)"
  by (simp add: lang_Plus_Atom)

lemma in_lang_char: "w \<in> lang (Atom (\<lambda>c. c = k)) \<longleftrightarrow> w = [k]"
  by auto

lemma emailRegex_test:
  "test emailRegex s \<longleftrightarrow>
     (\<exists>a b c. s = a @ [0x40] @ b @ [0x2E] @ c \<and> a \<noteq> [] \<and> b \<noteq> [] \<and> c \<noteq> []
        \<and> (\<forall>x \<in> set a \<union> set b \<union> set c. \<not> is_space x \<and> x \<noteq> 0x40))"
    (is "?l \<longleftrightarrow> ?r")
proof
  assume ?l
  then have "s \<in> lang emailRegex"
    by (simp add: test_def matches_lang)
  then obtain a r1 where 1: "s = a @ r1" "a \<in> lang (Plus (Atom not_space_at))"
      "r1 \<in> lang (Seq (Atom (\<lambda>c. c = 0x40)) (Seq (Plus (Atom not_space_at))
              (Seq (Atom (\<lambda>c. c = 0x2E)) (Plus (Atom not_space_at)))))"
    unfolding emailRegex_def in_lang_Seq [of s] by blast
  from 1(3) obtain r2 where 2: "r1 = [0x40] @ r2"
      "r2 \<in> lang (Seq (Plus (Atom not_space_at))
              (Seq (Atom (\<lambda>c. c = 0x2E)) (Plus (Atom not_space_at))))"
    unfolding in_lang_Seq [of r1] in_lang_char by blast
  from 2(2) obtain b r3 where 3: "r2 = b @ r3" "b \<in> lang (Plus (Atom not_space_at))"
      "r3 \<in> lang (Seq (Atom (\<lambda>c. c = 0x2E)) (Plus (Atom not_space_at)))"
    unfolding in_lang_Seq [of r2] by blast
  from 3(3) obtain c where 4: "r3 = [0x2E] @ c" "c \<in> lang (Plus (Atom not_space_at))"
    unfolding in_lang_Seq [of r3] in_lang_char by blast
  have "s = a @ [0x40] @ b @ [0x2E] @ c"
    by (simp add: 1(1) 2(1) 3(1) 4(1))
  moreover have "a \<noteq> []" "b \<noteq> []" "c \<noteq> []"
    "\<forall>x \<in> set a \<union> set b \<union> set c. \<not> is_space x \<and> x \<noteq> 0x40"
    using 1(2) 3(2) 4(2) by (auto simp: in_lang_Plus_Atom not_space_at_def)
  ultimately show ?r by blast
next
  assume ?r
  then obtain a b c where s: "s = a @ [0x40] @ b @ [0x2E] @ c"
    and ne: "a \<noteq> []" "b \<noteq> []" "c \<noteq> []"
    and ok: "\<forall>x \<in> set a \<union> set b \<union> set c. \<not> is_space x \<and> x \<noteq> 0x40"
    by blast
  have a: "a \<in> lang (Plus (Atom not_space_at))" and b: "b \<in> lang (Plus (Atom not_space_at))"
    and c: "c \<in> lang (Plus (Atom not_space_at))"
    using ne ok by (simp_all add: in_lang_Plus_Atom not_space_at_def)
  have "[0x2E] @ c \<in> lang (Seq (Atom (\<lambda>c. c = 0x2E)) (Plus (Atom not_space_at)))"
    unfolding in_lang_Seq in_lang_char using c by blast
  then have "b @ [0x2E] @ c \<in> lang (Seq (Plus (Atom not_space_at))
              (Seq (Atom (\<lambda>c. c = 0x2E)) (Plus (Atom not_space_at))))"
    unfolding in_lang_Seq [of "b @ [0x2E] @ c"] using b by blast
  then have "[0x40] @ b @ [0x2E] @ c \<in> lang (Seq (Atom (\<lambda>c. c = 0x40))
      (Seq (Plus (Atom not_space_at)) (Seq (Atom (\<lambda>c. c = 0x2E)) (Plus (Atom not_space_at)))))"
    unfolding in_lang_Seq [of "[0x40] @ b @ [0x2E] @ c"] in_lang_char by blast
  then have "s \<in> lang emailRegex"
    unfolding emailRegex_def s in_lang_Seq [of "a @ [0x40] @ b @ [0x2E] @ c"] using a by blast
  then show ?l
    by (simp add: test_def matches_lang)
qed

section \<open>The error handler\<close>

text \<open>
  C1. For every error given to \<open>errorHandler\<close>, the body's status and code are the
  exception's own when the error is a \<open>BaseException\<close> (of any subclass), with its
  details; so a \<open>NotFoundException\<close> gives 404 and \<open>NOT_FOUND\<close> and a
  \<open>BadRequestException\<close> gives 400 and \<open>BAD_REQUEST\<close>. For every other error they
  are 500 and \<open>INTERNAL_SERVER_ERROR\<close> with no details. In both cases the message is
  the error's message, or \<open>Error interno del servidor\<close> when that is empty. The HTTP
  status sent is the body's status.
\<close>

theorem errorHandler_maps_exceptions:
  fixes req :: request and d :: "'d option"
  shows "(errorHandler (Exception cls s c m d) req :: int \<times> ('t, 'd) ApiResponse) =
           (s, \<lparr>traceId = req_traceId req, status = s, code = c,
                message = (if m = [] then js ''Error interno del servidor'' else m),
                data = None, details = d\<rparr>)
       \<and> (errorHandler (Error m :: 'd js_error) req :: int \<times> ('t, 'd) ApiResponse) =
           (500, \<lparr>traceId = req_traceId req, status = 500,
                  code = js ''INTERNAL_SERVER_ERROR'',
                  message = (if m = [] then js ''Error interno del servidor'' else m),
                  data = None, details = None\<rparr>)
       \<and> instanceof_BaseException (NotFoundException mo d)
       \<and> (errorHandler (NotFoundException mo d) req :: int \<times> ('t, 'd) ApiResponse) =
           (404, \<lparr>traceId = req_traceId req, status = 404, code = js ''NOT_FOUND'',
                  message = (case mo of None \<Rightarrow> js ''Recurso no encontrado''
                             | Some m \<Rightarrow> if m = [] then js ''Error interno del servidor'' else m),
                  data = None, details = d\<rparr>)
       \<and> instanceof_BaseException (BadRequestException mo d)
       \<and> (errorHandler (BadRequestException mo d) req :: int \<times> ('t, 'd) ApiResponse) =
           (400, \<lparr>traceId = req_traceId req, status = 400, code = js ''BAD_REQUEST'',
                  message = (case mo of None \<Rightarrow> js ''Solicitud inv'' @ [0xE1] @ js ''lida''
                             | Some m \<Rightarrow> if m = [] then js ''Error interno del servidor'' else m),
                  data = None, details = d\<rparr>)"
  by (simp add: errorHandler_def or_else_def NotFoundException_def
      BadRequestException_def js_def split: option.splits)

section \<open>The handlers that take an id\<close>

lemma instanceof_NotFoundException_simps [simp]:
  "instanceof_NotFoundException (NotFoundException m d :: 'd js_error)"
  "\<not> instanceof_NotFoundException (BadRequestException m d :: 'd js_error)"
  "\<not> instanceof_NotFoundException cannot_convert"
  by (simp_all add: NotFoundException_def BadRequestException_def cannot_convert_def)

lemma instanceof_BadRequestException_simps [simp]:
  "instanceof_BadRequestException (BadRequestException m d :: 'd js_error)"
  "\<not> instanceof_BadRequestException (NotFoundException m d :: 'd js_error)"
  "\<not> instanceof_BadRequestException cannot_convert"
  by (simp_all add: NotFoundException_def BadRequestException_def cannot_convert_def)

lemma Map_has_iff_key: "Map_has users k \<longleftrightarrow> k \<in> fst ` set users"
  by (simp add: Map_has_def map_of_eq_None_iff)

lemma Map_get_None_iff_key: "Map_get users k = None \<longleftrightarrow> k \<notin> fst ` set users"
  by (simp add: Map_get_def map_of_eq_None_iff)

lemma put_email_block_error:
  "put_email_block v k users = Some e \<Longrightarrow> \<not> instanceof_NotFoundException e"
  by (auto simp: put_email_block_def split: if_splits option.splits)

lemma get_user_throws:
  "(\<exists>e. fst (get_user req users) = Inl e \<and> instanceof_NotFoundException e)
     \<longleftrightarrow> params_id req \<notin> fst ` set users"
  by (auto simp: get_user_def Let_def Map_get_None_iff_key [symmetric] split: option.splits)

lemma put_user_throws:
  "(\<exists>e. fst (put_user req users) = Inl e \<and> instanceof_NotFoundException e)
     \<longleftrightarrow> params_id req \<notin> fst ` set users"
  by (auto simp: put_user_def Let_def Map_get_None_iff_key [symmetric]
      dest: put_email_block_error split: option.splits)

lemma delete_user_throws:
  "(\<exists>e. fst (delete_user req users) = Inl e \<and> instanceof_NotFoundException e)
     \<longleftrightarrow> params_id req \<notin> fst ` set users"
  by (auto simp: delete_user_def Let_def Map_has_iff_key)

lemma not_found_is:
  "fst (get_user req users) = Inl e \<Longrightarrow> instanceof_NotFoundException e \<Longrightarrow>
     e = NotFoundException (Some (js ''Usuario '' @ params_id req @ js '' no encontrado'')) None"
  "fst (put_user req users) = Inl e \<Longrightarrow> instanceof_NotFoundException e \<Longrightarrow>
     e = NotFoundException (Some (js ''Usuario '' @ params_id req @ js '' no encontrado'')) None"
  "fst (delete_user req users) = Inl e \<Longrightarrow> instanceof_NotFoundException e \<Longrightarrow>
     e = NotFoundException (Some (js ''Usuario '' @ params_id req @ js '' no encontrado'')) None"
  by (auto simp: get_user_def put_user_def delete_user_def Let_def not_found_message_def
      dest: put_email_block_error split: option.splits if_splits)

lemma throw_keeps_map:
  "fst (get_user req users) = Inl e \<Longrightarrow> snd (get_user req users) = users"
  "fst (put_user req users) = Inl e \<Longrightarrow> snd (put_user req users) = users"
  "fst (delete_user req users) = Inl e \<Longrightarrow> snd (delete_user req users) = users"
  by (auto simp: get_user_def put_user_def delete_user_def Let_def split: option.splits if_splits)

text \<open>
  C2. For \<open>GET\<close>, \<open>PUT\<close> and \<open>DELETE /users/:id\<close>: the handler throws a
  \<open>NotFoundException\<close> if and only if the requested id is not a key of the Map, its
  message is \<open>Usuario <id> no encontrado\<close>, and whenever one of these handlers throws
  anything, the Map is as it was.
\<close>

theorem by_id_handlers_not_found:
  "((\<exists>e. fst (get_user req users) = Inl e \<and> instanceof_NotFoundException e)
       \<longleftrightarrow> params_id req \<notin> fst ` set users)
   \<and> ((\<exists>e. fst (put_user req users) = Inl e \<and> instanceof_NotFoundException e)
       \<longleftrightarrow> params_id req \<notin> fst ` set users)
   \<and> ((\<exists>e. fst (delete_user req users) = Inl e \<and> instanceof_NotFoundException e)
       \<longleftrightarrow> params_id req \<notin> fst ` set users)
   \<and> (\<forall>h \<in> {get_user, put_user, delete_user}. \<forall>e. fst (h req users) = Inl e \<longrightarrow>
         snd (h req users) = users
         \<and> (instanceof_NotFoundException e \<longrightarrow>
              e_message e = js ''Usuario '' @ params_id req @ js '' no encontrado''
              \<and> e_status e = 404 \<and> e_code e = js ''NOT_FOUND''))"
  using get_user_throws [of req users] put_user_throws [of req users]
    delete_user_throws [of req users] throw_keeps_map [of req users]
    not_found_is [of req users]
  by (auto simp: NotFoundException_def)

theorem by_id_handlers_not_found_witness:
  "js ''u2'' \<notin> fst ` set example_users
   \<and> (\<exists>e. fst (get_user example_request example_users) = Inl e
          \<and> instanceof_NotFoundException e)
   \<and> snd (get_user example_request example_users) = example_users
   \<and> snd (put_user example_request example_users) = example_users
   \<and> snd (delete_user example_request example_users) = example_users"
  using by_id_handlers_not_found [of example_request example_users]
  by (simp add: example_request_def example_users_def js_def get_user_def put_user_def
      delete_user_def Map_get_def Map_has_def)

section \<open>Creating a user\<close>

lemma strict_equals_iff: "strict_equals a b \<longleftrightarrow> is_primitive b \<and> a = b"
  by (cases a; cases b) auto

lemma is_primitive_ToString: "is_primitive v \<Longrightarrow> ToString v \<noteq> None"
  by (cases v) auto

lemma update_fresh: "k \<notin> fst ` set m \<Longrightarrow> AList.update k v m = m @ [(k, v)]"
  by (induction m) auto

lemma Map_set_get: "Map_get (Map_set k v m) k' = (if k' = k then Some v else Map_get m k')"
  by (simp add: Map_get_def Map_set_def update_conv')

text \<open>What \<open>POST /users\<close> does, branch by branch, for every body.\<close>

lemma post_users_cases:
  "falsy (body_email req) \<or> falsy (body_name req) \<Longrightarrow>
     post_users uuid now req users =
       (Inl (BadRequestException (Some (js ''Email y nombre son requeridos''))
          (Some (Missing_fields (filter (\<lambda>field. falsy (body_field req field))
             [js ''email'', js ''name''])))), users)"
  "\<not> falsy (body_email req) \<Longrightarrow> \<not> falsy (body_name req) \<Longrightarrow>
   RegExp_test emailRegex (body_email req) = None \<Longrightarrow>
     post_users uuid now req users = (Inl cannot_convert, users)"
  "\<not> falsy (body_email req) \<Longrightarrow> \<not> falsy (body_name req) \<Longrightarrow>
   RegExp_test emailRegex (body_email req) = Some False \<Longrightarrow>
     post_users uuid now req users =
       (Inl (BadRequestException
          (Some (js ''Formato de email inv'' @ [0xE1] @ js ''lido'')) None), users)"
  "\<not> falsy (body_email req) \<Longrightarrow> \<not> falsy (body_name req) \<Longrightarrow>
   RegExp_test emailRegex (body_email req) = Some True \<Longrightarrow>
   \<exists>u \<in> snd ` set users. strict_equals (email u) (body_email req) \<Longrightarrow>
     post_users uuid now req users =
       (Inl (BadRequestException
          (Some (js ''El email ya est'' @ [0xE1] @ js '' registrado'')) None), users)"
  "\<not> falsy (body_email req) \<Longrightarrow> \<not> falsy (body_name req) \<Longrightarrow>
   RegExp_test emailRegex (body_email req) = Some True \<Longrightarrow>
   \<not> (\<exists>u \<in> snd ` set users. strict_equals (email u) (body_email req)) \<Longrightarrow>
     post_users uuid now req users =
       (Inr (201, \<lparr>traceId = req_traceId req, status = 201, code = js ''USER_CREATED'',
                   message = js ''Usuario creado exitosamente'',
                   data = Some \<lparr>user_id = uuid, name = body_name req,
                                 email = body_email req, createdAt = now\<rparr>,
                   details = None\<rparr>),
        Map_set uuid \<lparr>user_id = uuid, name = body_name req, email = body_email req,
                       createdAt = now\<rparr> users)"
  by (auto simp: post_users_def Let_def Map_values_def list_ex_iff build_def setData_def
      setMessage_def setCode_def setStatus_def ApiResponseBuilder_def)

lemma post_users_error:
  "fst (post_users uuid now req users) = Inl e \<Longrightarrow> snd (post_users uuid now req users) = users"
  by (auto simp: post_users_def Let_def split: if_splits option.splits)

text \<open>
  When the email of the body is a primitive (a string, a number, a boolean, \<open>null\<close>, or
  absent), the handler rejects exactly the requests it is meant to reject.
\<close>

lemma post_users_primitive_email:
  assumes "is_primitive (body_email req)"
  shows "(\<exists>e. fst (post_users uuid now req users) = Inl e \<and> instanceof_BadRequestException e)
     \<longleftrightarrow> (falsy (body_email req) \<or> falsy (body_name req)
          \<or> RegExp_test emailRegex (body_email req) = Some False
          \<or> body_email req \<in> email ` snd ` set users)"
    and "fst (post_users uuid now req users) = Inl e \<Longrightarrow> instanceof_BadRequestException e"
proof -
  obtain m where m: "RegExp_test emailRegex (body_email req) = Some m"
    using is_primitive_ToString [OF assms] by (auto simp: RegExp_test_def)
  have eq: "(\<exists>u \<in> snd ` set users. strict_equals (email u) (body_email req))
      \<longleftrightarrow> body_email req \<in> email ` snd ` set users"
    using assms by (force simp: strict_equals_iff image_iff)
  consider "falsy (body_email req) \<or> falsy (body_name req)"
    | "\<not> falsy (body_email req)" "\<not> falsy (body_name req)" "\<not> m"
    | "\<not> falsy (body_email req)" "\<not> falsy (body_name req)" "m"
      "\<exists>u \<in> snd ` set users. strict_equals (email u) (body_email req)"
    | "\<not> falsy (body_email req)" "\<not> falsy (body_name req)" "m"
      "\<not> (\<exists>u \<in> snd ` set users. strict_equals (email u) (body_email req))"
    by blast
  then have "((\<exists>e. fst (post_users uuid now req users) = Inl e \<and> instanceof_BadRequestException e)
     \<longleftrightarrow> (falsy (body_email req) \<or> falsy (body_name req)
          \<or> RegExp_test emailRegex (body_email req) = Some False
          \<or> body_email req \<in> email ` snd ` set users))
     \<and> (\<forall>e. fst (post_users uuid now req users) = Inl e \<longrightarrow> instanceof_BadRequestException e)"
  proof cases
    case 1
    then show ?thesis using post_users_cases(1) [of req uuid now users] by auto
  next
    case 2
    then show ?thesis using post_users_cases(3) [of req uuid now users] m by auto
  next
    case 3
    then show ?thesis using post_users_cases(4) [of req users uuid now] m eq by auto
  next
    case 4
    then show ?thesis using post_users_cases(5) [of req users uuid now] m eq by auto
  qed
  then show "(\<exists>e. fst (post_users uuid now req users) = Inl e \<and> instanceof_BadRequestException e)
     \<longleftrightarrow> (falsy (body_email req) \<or> falsy (body_name req)
          \<or> RegExp_test emailRegex (body_email req) = Some False
          \<or> body_email req \<in> email ` snd ` set users)"
    and "fst (post_users uuid now req users) = Inl e \<Longrightarrow> instanceof_BadRequestException e"
    by blast+
qed

text \<open>
  C3. The handler converts the email to a string for the pattern and compares it with
  \<open>===\<close>, without checking that it is a string. An array email whose joined elements
  match the pattern is accepted whatever the Map holds, also when a stored user has
  that very email; and an email whose conversion to string throws makes the handler
  throw that \<open>TypeError\<close>, which is no \<open>BadRequestException\<close>.
\<close>

theorem post_users_non_string_email:
  "(\<not> falsy (body_name req) \<and> body_email req = JArray xs
      \<and> RegExp_test emailRegex (JArray xs) = Some True \<longrightarrow>
      post_users uuid now req users =
        (Inr (201, \<lparr>traceId = req_traceId req, status = 201, code = js ''USER_CREATED'',
                    message = js ''Usuario creado exitosamente'',
                    data = Some \<lparr>user_id = uuid, name = body_name req,
                                  email = JArray xs, createdAt = now\<rparr>,
                    details = None\<rparr>),
         Map_set uuid \<lparr>user_id = uuid, name = body_name req, email = JArray xs,
                        createdAt = now\<rparr> users))
   \<and> (\<not> falsy (body_name req) \<and> \<not> falsy (body_email req)
      \<and> ToString (body_email req) = None \<longrightarrow>
      post_users uuid now req users = (Inl cannot_convert, users)
      \<and> \<not> instanceof_BadRequestException cannot_convert)"
proof (intro conjI impI)
  assume a: "\<not> falsy (body_name req) \<and> body_email req = JArray xs
      \<and> RegExp_test emailRegex (JArray xs) = Some True"
  then have "\<not> falsy (body_email req)"
    "\<not> (\<exists>u \<in> snd ` set users. strict_equals (email u) (body_email req))"
    by (simp_all add: falsy_def strict_equals_iff)
  with a post_users_cases(5) [of req users uuid now]
  show "post_users uuid now req users =
        (Inr (201, \<lparr>traceId = req_traceId req, status = 201, code = js ''USER_CREATED'',
                    message = js ''Usuario creado exitosamente'',
                    data = Some \<lparr>user_id = uuid, name = body_name req,
                                  email = JArray xs, createdAt = now\<rparr>,
                    details = None\<rparr>),
         Map_set uuid \<lparr>user_id = uuid, name = body_name req, email = JArray xs,
                        createdAt = now\<rparr> users)"
    by simp
next
  assume a: "\<not> falsy (body_name req) \<and> \<not> falsy (body_email req)
      \<and> ToString (body_email req) = None"
  then have "RegExp_test emailRegex (body_email req) = None"
    by (simp add: RegExp_test_def)
  with a show "post_users uuid now req users = (Inl cannot_convert, users)"
    using post_users_cases(2) by blast
  show "\<not> instanceof_BadRequestException cannot_convert"
    by simp
qed

theorem post_users_non_string_email_witness:
  "post_users (js ''u2'') 1 array_email_request array_email_users =
     (Inr (201, \<lparr>traceId = js ''t'', status = 201, code = js ''USER_CREATED'',
                 message = js ''Usuario creado exitosamente'',
                 data = Some \<lparr>user_id = js ''u2'', name = JString (js ''Ana''),
                               email = JArray [JString (js ''a@b.c'')], createdAt = 1\<rparr>,
                 details = None\<rparr>),
      [(js ''u1'', \<lparr>user_id = js ''u1'', name = JString (js ''Ana''),
                    email = JArray [JString (js ''a@b.c'')], createdAt = 0\<rparr>),
       (js ''u2'', \<lparr>user_id = js ''u2'', name = JString (js ''Ana''),
                    email = JArray [JString (js ''a@b.c'')], createdAt = 1\<rparr>)])
   \<and> post_users (js ''u2'') 1 object_email_request array_email_users =
       (Inl (Error (js ''Cannot convert object to primitive value'')), array_email_users)"
proof -
  have t: "RegExp_test emailRegex (JArray [JString (js ''a@b.c'')]) = Some True"
    by (simp add: RegExp_test_def test_def emailRegex_def Plus_def js_def not_space_at_def
        is_space_def)
  have n: "ToString (JObject [(js ''toString'', JNumber (js ''1''))]) = None"
    by simp
  have f: "\<not> falsy (JString (js ''Ana''))"
    "\<not> falsy (JObject [(js ''toString'', JNumber (js ''1''))])"
    by (simp_all add: falsy_def js_def)
  from post_users_non_string_email
      [of array_email_request "[JString (js ''a@b.c'')]" "js ''u2''" 1 array_email_users]
    post_users_non_string_email
      [of object_email_request "[]" "js ''u2''" 1 array_email_users]
    t n f
  show ?thesis
    by (simp add: array_email_request_def object_email_request_def array_email_users_def
        Map_set_def cannot_convert_def js_def)
qed

section \<open>The invariant of the users Map\<close>

lemma users_invariant_iff:
  "users_invariant users \<longleftrightarrow>
     distinct (map fst users)
     \<and> (\<forall>(k, u) \<in> set users. user_id u = k)
     \<and> (\<forall>(k, u) \<in> set users. \<forall>(k', u') \<in> set users.
           is_primitive (email u) \<and> email u = email u' \<longrightarrow> k = k')"
  by (simp add: users_invariant_def list_all_iff)

lemma set_update_distinct:
  "distinct (map fst m) \<Longrightarrow>
     set (AList.update k v m) = insert (k, v) {x \<in> set m. fst x \<noteq> k}"
proof (induction m)
  case Nil
  show ?case by simp
next
  case (Cons p m)
  show ?case
  proof (cases "fst p = k")
    case True
    then have "\<forall>x \<in> set m. fst x \<noteq> k"
      using Cons.prems by (fastforce simp: image_iff)
    with True show ?thesis by (cases p) auto
  next
    case False
    with Cons show ?thesis by (cases p) auto
  qed
qed

lemma invariant_Map_set:
  assumes "users_invariant users" and "user_id v = k"
    and "\<forall>(k', u) \<in> set users. k' \<noteq> k \<and> email u = email v \<longrightarrow> \<not> is_primitive (email v)"
  shows "users_invariant (Map_set k v users)"
proof -
  have d: "distinct (map fst users)"
    using assms(1) by (simp add: users_invariant_iff)
  have s: "set (AList.update k v users) = insert (k, v) {x \<in> set users. fst x \<noteq> k}"
    using d by (rule set_update_distinct)
  have "distinct (map fst (AList.update k v users))"
    using d by (simp add: distinct_update)
  moreover have "\<forall>(k', u) \<in> set (AList.update k v users). user_id u = k'"
    using assms(1,2) unfolding s users_invariant_iff by auto
  moreover have "\<forall>(k1, u1) \<in> set (AList.update k v users).
      \<forall>(k2, u2) \<in> set (AList.update k v users).
        is_primitive (email u1) \<and> email u1 = email u2 \<longrightarrow> k1 = k2"
    using assms(1,3) unfolding s users_invariant_iff by (auto; metis)
  ultimately show ?thesis
    by (simp add: users_invariant_iff Map_set_def)
qed

lemma invariant_Map_delete:
  assumes "users_invariant users"
  shows "users_invariant (Map_delete k users)"
  using assms
  by (auto simp: users_invariant_iff Map_delete_def AList.delete_eq distinct_map_filter)

lemma map_of_invariant:
  assumes "users_invariant users" and "Map_get users k = Some u"
  shows "(k, u) \<in> set users \<and> user_id u = k"
  using assms by (auto simp: users_invariant_iff Map_get_def dest: map_of_SomeD)

lemma invariant_post:
  assumes "users_invariant users"
  shows "users_invariant (snd (post_users uuid now req users))"
proof (cases "\<exists>e. fst (post_users uuid now req users) = Inl e")
  case True
  then show ?thesis
    using assms post_users_error by fastforce
next
  case False
  let ?new = "\<lparr>user_id = uuid, name = body_name req, email = body_email req, createdAt = now\<rparr>"
  have ok: "\<not> falsy (body_email req)" "\<not> falsy (body_name req)"
    "RegExp_test emailRegex (body_email req) = Some True"
    "\<not> (\<exists>u \<in> snd ` set users. strict_equals (email u) (body_email req))"
    using False
    by (auto simp: post_users_def Let_def Map_values_def list_ex_iff
        split: if_splits option.splits)
  then have res: "snd (post_users uuid now req users) = Map_set uuid ?new users"
    using post_users_cases(5) [of req users uuid now] by simp
  have "\<forall>(k', u) \<in> set users. k' \<noteq> uuid \<and> email u = email ?new \<longrightarrow>
          \<not> is_primitive (email ?new)"
    using ok(4) by (force simp: strict_equals_iff)
  then show ?thesis
    unfolding res using assms by (intro invariant_Map_set) simp_all
qed

lemma invariant_delete:
  assumes "users_invariant users"
  shows "users_invariant (snd (delete_user req users))"
  using assms by (simp add: delete_user_def Let_def invariant_Map_delete)

lemma invariant_put:
  assumes "users_invariant users"
  shows "users_invariant (snd (put_user req users))"
proof (cases "\<exists>e. fst (put_user req users) = Inl e")
  case True
  then show ?thesis
    using assms throw_keeps_map(2) by fastforce
next
  case False
  then obtain old where old: "Map_get users (params_id req) = Some old"
    by (cases "Map_get users (params_id req)") (auto simp: put_user_def Let_def)
  let ?new = "old\<lparr>name := value_or (body_name req) (name old),
                    email := value_or (body_email req) (email old)\<rparr>"
  have blk: "put_email_block (body_email req) (params_id req) users = None"
    using False old by (auto simp: put_user_def Let_def split: if_splits option.splits)
  have res: "snd (put_user req users) = Map_set (params_id req) ?new users"
    using False old by (auto simp: put_user_def Let_def split: if_splits option.splits)
  have in_map: "(params_id req, old) \<in> set users" "user_id old = params_id req"
    using map_of_invariant [OF assms old] by simp_all
  have inv: "\<forall>(k, u) \<in> set users. user_id u = k"
    "\<forall>(k, u) \<in> set users. \<forall>(k', u') \<in> set users.
           is_primitive (email u) \<and> email u = email u' \<longrightarrow> k = k'"
    using assms by (simp_all add: users_invariant_iff)
  have others: "\<forall>(k', u) \<in> set users. k' \<noteq> params_id req \<and> email u = email ?new \<longrightarrow>
      \<not> is_primitive (email ?new)"
  proof (cases "truthy_value (body_email req)")
    case True
    then have "\<not> list_ex (\<lambda>user. strict_equals (email user) (body_email req)
                 \<and> user_id user \<noteq> params_id req) (Map_values users)"
      using blk by (auto simp: put_email_block_def split: if_splits option.splits)
    then have "\<forall>(k', u) \<in> set users. k' \<noteq> params_id req \<longrightarrow>
        \<not> strict_equals (email u) (body_email req)"
      using inv(1) by (fastforce simp: list_ex_iff Map_values_def)
    then show ?thesis
      using True by (fastforce simp: value_or_def strict_equals_iff)
  next
    case False
    then have e: "email ?new = email old"
      by (simp add: value_or_def)
    show ?thesis
      unfolding e using inv(2) in_map(1) by fastforce
  qed
  show ?thesis
    unfolding res using assms in_map(2) others by (intro invariant_Map_set) simp_all
qed

text \<open>
  In every reachable state the keys are distinct, every user is stored under its own
  id, and two different entries have the same email only when that email is an array
  or an object.
\<close>

lemma reachable_keys_ids_primitive_emails:
  assumes "reachable users"
  shows "distinct (map fst users)
     \<and> (\<forall>(k, u) \<in> set users. user_id u = k)
     \<and> (\<forall>i < length users. \<forall>j < length users.
           i \<noteq> j \<and> is_primitive (email (snd (users ! i))) \<longrightarrow>
           email (snd (users ! i)) \<noteq> email (snd (users ! j)))"
proof -
  have inv: "users_invariant users"
    using assms
  proof (induction rule: reachable.induct)
    case reach_empty
    show ?case by (simp add: users_invariant_def)
  qed (simp_all add: invariant_post invariant_put invariant_delete)
  then have d: "distinct (map fst users)"
    and ids: "\<forall>(k, u) \<in> set users. user_id u = k"
    and em: "\<forall>(k, u) \<in> set users. \<forall>(k', u') \<in> set users.
           is_primitive (email u) \<and> email u = email u' \<longrightarrow> k = k'"
    by (simp_all add: users_invariant_iff)
  have "email (snd (users ! i)) \<noteq> email (snd (users ! j))"
    if "i < length users" "j < length users" "i \<noteq> j"
      "is_primitive (email (snd (users ! i)))" for i j
  proof
    assume eq: "email (snd (users ! i)) = email (snd (users ! j))"
    have "users ! i \<in> set users" "users ! j \<in> set users"
      using that by simp_all
    then have "fst (users ! i) = fst (users ! j)"
      using em that(4) eq by (fastforce simp: split_beta)
    then have "map fst users ! i = map fst users ! j"
      using that by simp
    then show False
      using d that by (simp add: distinct_conv_nth)
  qed
  with d ids show ?thesis by blast
qed

text \<open>
  C4. Two \<open>POST\<close> requests with the same array email, whose joined elements match the
  pattern, are both accepted: from any reachable state they lead to a reachable state in
  which two users, under different keys, have the same email.
\<close>

theorem duplicate_array_email_reachable:
  assumes "reachable users"
    and "\<not> falsy (body_name req)" and "body_email req = JArray xs"
    and "RegExp_test emailRegex (JArray xs) = Some True"
    and "u1 \<noteq> u2"
  shows "reachable (snd (post_users u2 t2 req (snd (post_users u1 t1 req users))))
     \<and> (\<exists>a b. Map_get (snd (post_users u2 t2 req (snd (post_users u1 t1 req users)))) u1
                 = Some a
           \<and> Map_get (snd (post_users u2 t2 req (snd (post_users u1 t1 req users)))) u2
                 = Some b
           \<and> email a = JArray xs \<and> email b = JArray xs)"
proof -
  have ne: "\<not> falsy (body_email req)"
    using assms(3) by (simp add: falsy_def)
  have no: "\<not> (\<exists>u \<in> snd ` set m. strict_equals (email u) (body_email req))" for m :: users_map
    using assms(3) by (simp add: strict_equals_iff)
  have post: "snd (post_users u t req m) =
      Map_set u \<lparr>user_id = u, name = body_name req, email = body_email req, createdAt = t\<rparr> m"
    for u t m
    using post_users_cases(5) [OF ne assms(2) _ no [of m], of u t] assms(3,4) by simp
  have "reachable (snd (post_users u2 t2 req (snd (post_users u1 t1 req users))))"
    using assms(1) by (intro reach_post)
  then show ?thesis
    using assms(3,5) by (simp add: post Map_set_get)
qed

theorem duplicate_array_email_reachable_witness:
  "reachable
     [(js ''u1'', \<lparr>user_id = js ''u1'', name = JString (js ''Ana''),
                   email = JArray [JString (js ''a@b.c'')], createdAt = 0\<rparr>),
      (js ''u2'', \<lparr>user_id = js ''u2'', name = JString (js ''Ana''),
                   email = JArray [JString (js ''a@b.c'')], createdAt = 1\<rparr>)]
   \<and> snd (post_users (js ''u2'') 1 array_email_request
          (snd (post_users (js ''u1'') 0 array_email_request []))) =
     [(js ''u1'', \<lparr>user_id = js ''u1'', name = JString (js ''Ana''),
                   email = JArray [JString (js ''a@b.c'')], createdAt = 0\<rparr>),
      (js ''u2'', \<lparr>user_id = js ''u2'', name = JString (js ''Ana''),
                   email = JArray [JString (js ''a@b.c'')], createdAt = 1\<rparr>)]"
proof -
  have t: "RegExp_test emailRegex (JArray [JString (js ''a@b.c'')]) = Some True"
    by (simp add: RegExp_test_def test_def emailRegex_def Plus_def js_def not_space_at_def
        is_space_def)
  have n: "\<not> falsy (body_name array_email_request)"
    "body_email array_email_request = JArray [JString (js ''a@b.c'')]"
    by (simp_all add: falsy_def array_email_request_def js_def)
  have u: "js ''u1'' \<noteq> js ''u2''"
    by (simp add: js_def)
  have s: "snd (post_users (js ''u2'') 1 array_email_request
          (snd (post_users (js ''u1'') 0 array_email_request []))) =
     [(js ''u1'', \<lparr>user_id = js ''u1'', name = JString (js ''Ana''),
                   email = JArray [JString (js ''a@b.c'')], createdAt = 0\<rparr>),
      (js ''u2'', \<lparr>user_id = js ''u2'', name = JString (js ''Ana''),
                   email = JArray [JString (js ''a@b.c'')], createdAt = 1\<rparr>)]"
    using t
    by (simp add: post_users_def array_email_request_def falsy_def Map_values_def Map_set_def
        Let_def js_def)
  from duplicate_array_email_reachable [OF reach_empty n t u, of 1 0] s
  show ?thesis by simp
qed

section \<open>The trace middleware\<close>

text \<open>
  C5. After \<open>traceMiddleware\<close>, \<open>req.traceId\<close> is the request's \<open>x-trace-id\<close> header
  when that header is present and not empty, and the generated UUID otherwise; the
  response header \<open>x-trace-id\<close> is set to the same value. Nothing else of the request
  and no other response header changes.
\<close>

theorem traceMiddleware_sets_trace_id:
  "req_traceId (fst (traceMiddleware uuid req res)) =
     (case headers req (js ''x-trace-id'') of
        None \<Rightarrow> uuid
      | Some h \<Rightarrow> if h = [] then uuid else h)
   \<and> res_headers (snd (traceMiddleware uuid req res)) (js ''x-trace-id'') =
       Some (req_traceId (fst (traceMiddleware uuid req res)))
   \<and> fst (traceMiddleware uuid req res) =
       req\<lparr>req_traceId := req_traceId (fst (traceMiddleware uuid req res))\<rparr>
   \<and> (\<forall>h. h \<noteq> js ''x-trace-id'' \<longrightarrow>
         res_headers (snd (traceMiddleware uuid req res)) h = res_headers res h)"
  by (simp add: traceMiddleware_def Let_def opt_or_else_def or_else_def split: option.splits)

theorem traceMiddleware_sets_trace_id_witness:
  "req_traceId (fst (traceMiddleware (js ''uuid-1'')
       (example_request\<lparr>headers := [js ''x-trace-id'' \<mapsto> js ''abc'']\<rparr>) \<lparr>res_headers = Map.empty\<rparr>))
     = js ''abc''
   \<and> req_traceId (fst (traceMiddleware (js ''uuid-1'')
       (example_request\<lparr>headers := [js ''x-trace-id'' \<mapsto> []]\<rparr>) \<lparr>res_headers = Map.empty\<rparr>))
     = js ''uuid-1''
   \<and> res_headers (snd (traceMiddleware (js ''uuid-1'') example_request
       \<lparr>res_headers = Map.empty\<rparr>)) (js ''x-trace-id'') = Some (js ''uuid-1'')"
  using traceMiddleware_sets_trace_id [of "js ''uuid-1''"
      "example_request\<lparr>headers := [js ''x-trace-id'' \<mapsto> js ''abc'']\<rparr>"
      "\<lparr>res_headers = Map.empty\<rparr>"]
    traceMiddleware_sets_trace_id [of "js ''uuid-1''"
      "example_request\<lparr>headers := [js ''x-trace-id'' \<mapsto> []]\<rparr>"
      "\<lparr>res_headers = Map.empty\<rparr>"]
    traceMiddleware_sets_trace_id [of "js ''uuid-1''" example_request
      "\<lparr>res_headers = Map.empty\<rparr>"]
  by (simp add: example_request_def js_def)

section \<open>The response builder\<close>

lemma foldl_call_setter_traceId: "traceId (foldl call_setter r cs) = traceId r"
proof (induction cs arbitrary: r)
  case Nil
  show ?case by simp
next
  case (Cons c cs)
  then show ?case
    by (cases c) (simp_all add: setStatus_def setCode_def setMessage_def setData_def setDetails_def)
qed

lemma foldl_call_setter_status:
  "\<not> list_ex is_SetStatus cs \<Longrightarrow> status (foldl call_setter r cs) = status r"
proof (induction cs arbitrary: r)
  case Nil
  show ?case by simp
next
  case (Cons c cs)
  then show ?case
    by (cases c) (simp_all add: setStatus_def setCode_def setMessage_def setData_def setDetails_def)
qed

lemma foldl_call_setter_code:
  "\<not> list_ex is_SetCode cs \<Longrightarrow> code (foldl call_setter r cs) = code r"
proof (induction cs arbitrary: r)
  case Nil
  show ?case by simp
next
  case (Cons c cs)
  then show ?case
    by (cases c) (simp_all add: setStatus_def setCode_def setMessage_def setData_def setDetails_def)
qed

lemma foldl_call_setter_message:
  "\<not> list_ex is_SetMessage cs \<Longrightarrow> message (foldl call_setter r cs) = message r"
proof (induction cs arbitrary: r)
  case Nil
  show ?case by simp
next
  case (Cons c cs)
  then show ?case
    by (cases c) (simp_all add: setStatus_def setCode_def setMessage_def setData_def setDetails_def)
qed

lemma foldl_call_setter_data:
  "\<not> list_ex is_SetData cs \<Longrightarrow> data (foldl call_setter r cs) = data r"
proof (induction cs arbitrary: r)
  case Nil
  show ?case by simp
next
  case (Cons c cs)
  then show ?case
    by (cases c) (simp_all add: setStatus_def setCode_def setMessage_def setData_def setDetails_def)
qed

lemma foldl_call_setter_details:
  "\<not> list_ex is_SetDetails cs \<Longrightarrow> details (foldl call_setter r cs) = details r"
proof (induction cs arbitrary: r)
  case Nil
  show ?case by simp
next
  case (Cons c cs)
  then show ?case
    by (cases c) (simp_all add: setStatus_def setCode_def setMessage_def setData_def setDetails_def)
qed

text \<open>
  C8. Whatever setters are chained between the constructor and \<open>build\<close>, the built
  response has the \<open>traceId\<close> given to the constructor, and every field whose setter
  was not called has its initial value: status 200, code \<open>SUCCESS\<close>, message empty,
  data and details absent.
\<close>

theorem build_keeps_traceId_and_defaults:
  "traceId (build_chain tid cs) = tid
   \<and> (\<not> list_ex is_SetStatus cs \<longrightarrow> status (build_chain tid cs) = 200)
   \<and> (\<not> list_ex is_SetCode cs \<longrightarrow> code (build_chain tid cs) = js ''SUCCESS'')
   \<and> (\<not> list_ex is_SetMessage cs \<longrightarrow> message (build_chain tid cs) = [])
   \<and> (\<not> list_ex is_SetData cs \<longrightarrow> data (build_chain tid cs) = None)
   \<and> (\<not> list_ex is_SetDetails cs \<longrightarrow> details (build_chain tid cs) = None)"
  by (simp add: build_chain_def build_def foldl_call_setter_traceId foldl_call_setter_status
      foldl_call_setter_code foldl_call_setter_message foldl_call_setter_data
      foldl_call_setter_details ApiResponseBuilder_def)

theorem build_keeps_traceId_and_defaults_witness:
  "build_chain (js ''t1'') [SetStatus 201, SetData (5::nat), SetCode (js ''USER_CREATED''), SetStatus 404] =
     \<lparr>traceId = js ''t1'', status = 404, code = js ''USER_CREATED'', message = [],
      data = Some 5, details = (None :: unit option)\<rparr>"
  using build_keeps_traceId_and_defaults
    [of "js ''t1''" "[SetStatus 201, SetData (5::nat), SetCode (js ''USER_CREATED''), SetStatus 404] :: (nat, unit) setter list"]
  by (simp add: build_chain_def build_def ApiResponseBuilder_def setStatus_def setCode_def
      setData_def)

section \<open>Completing a task\<close>

lemma find_index_None: "find_index P xs = None \<longleftrightarrow> (\<forall>x \<in> set xs. \<not> P x)"
  by (induction xs) auto

lemma find_index_Some:
  "find_index P xs = Some k \<longleftrightarrow> k < length xs \<and> P (xs ! k) \<and> (\<forall>j < k. \<not> P (xs ! j))"
proof (induction xs arbitrary: k)
  case Nil
  show ?case by simp
next
  case (Cons x xs)
  show ?case
  proof (cases "P x")
    case True
    then show ?thesis by (cases k) auto
  next
    case False
    show ?thesis
    proof (cases k)
      case 0
      with False show ?thesis by auto
    next
      case (Suc n)
      with False Cons.IH [of n] show ?thesis
        by (auto simp: less_Suc_eq_0_disj nth_Cons')
    qed
  qed
qed

lemma find_index_first:
  assumes "\<exists>x \<in> set xs. P x"
  shows "\<exists>k. find_index P xs = Some k \<and> k < length xs \<and> P (xs ! k) \<and> (\<forall>j < k. \<not> P (xs ! j))"
proof -
  from assms have "find_index P xs \<noteq> None"
    by (simp add: find_index_None)
  then obtain k where "find_index P xs = Some k" by blast
  then show ?thesis
    using find_index_Some [of P xs k] by simp
qed

text \<open>
  C7. \<open>completeTask\<close> (and \<open>done\<close> of \<open>TaskMgr\<close>): when no task has the id, the
  result is false and the list is unchanged. When some task has it, there is a first
  position \<open>k\<close> with that id, the result is true, the list has the same length, the
  task at \<open>k\<close> is the old one with only its status set to completed, and every other
  position holds what it held.
\<close>

theorem completeTask_frame:
  "((\<forall>t \<in> set tasks. task_id t \<noteq> taskId) \<longrightarrow>
       TaskManager_completeTask taskId tasks = (False, tasks))
   \<and> ((\<exists>t \<in> set tasks. task_id t = taskId) \<longrightarrow>
        (\<exists>k < length tasks. task_id (tasks ! k) = taskId
           \<and> (\<forall>j < k. task_id (tasks ! j) \<noteq> taskId)
           \<and> fst (TaskManager_completeTask taskId tasks) = True
           \<and> length (snd (TaskManager_completeTask taskId tasks)) = length tasks
           \<and> snd (TaskManager_completeTask taskId tasks) ! k =
               (tasks ! k)\<lparr>task_status := COMPLETED\<rparr>
           \<and> (\<forall>j < length tasks. j \<noteq> k \<longrightarrow>
                 snd (TaskManager_completeTask taskId tasks) ! j = tasks ! j)))
   \<and> ((\<forall>x \<in> set d. t_id x \<noteq> i) \<longrightarrow> TaskMgr_done i d = (False, d))
   \<and> ((\<exists>x \<in> set d. t_id x = i) \<longrightarrow>
        (\<exists>k < length d. t_id (d ! k) = i \<and> (\<forall>j < k. t_id (d ! j) \<noteq> i)
           \<and> fst (TaskMgr_done i d) = True
           \<and> length (snd (TaskMgr_done i d)) = length d
           \<and> snd (TaskMgr_done i d) ! k = (d ! k)\<lparr>st := js ''completed''\<rparr>
           \<and> (\<forall>j < length d. j \<noteq> k \<longrightarrow> snd (TaskMgr_done i d) ! j = d ! j)))"
proof (intro conjI impI)
  assume "\<forall>t \<in> set tasks. task_id t \<noteq> taskId"
  then have "find_index (\<lambda>task. task_id task = taskId) tasks = None"
    by (simp add: find_index_None)
  then show "TaskManager_completeTask taskId tasks = (False, tasks)"
    by (simp add: TaskManager_completeTask_def)
next
  assume "\<forall>x \<in> set d. t_id x \<noteq> i"
  then have "find_index (\<lambda>x. t_id x = i) d = None"
    by (simp add: find_index_None)
  then show "TaskMgr_done i d = (False, d)"
    by (simp add: TaskMgr_done_def)
next
  assume "\<exists>t \<in> set tasks. task_id t = taskId"
  then obtain k where f: "find_index (\<lambda>task. task_id task = taskId) tasks = Some k"
    and k: "k < length tasks" "task_id (tasks ! k) = taskId"
      "\<forall>j < k. task_id (tasks ! j) \<noteq> taskId"
    using find_index_first [of tasks "\<lambda>task. task_id task = taskId"] by blast
  have "TaskManager_completeTask taskId tasks =
          (True, tasks[k := (tasks ! k)\<lparr>task_status := COMPLETED\<rparr>])"
    by (simp add: TaskManager_completeTask_def f)
  then show "\<exists>k < length tasks. task_id (tasks ! k) = taskId
           \<and> (\<forall>j < k. task_id (tasks ! j) \<noteq> taskId)
           \<and> fst (TaskManager_completeTask taskId tasks) = True
           \<and> length (snd (TaskManager_completeTask taskId tasks)) = length tasks
           \<and> snd (TaskManager_completeTask taskId tasks) ! k =
               (tasks ! k)\<lparr>task_status := COMPLETED\<rparr>
           \<and> (\<forall>j < length tasks. j \<noteq> k \<longrightarrow>
                 snd (TaskManager_completeTask taskId tasks) ! j = tasks ! j)"
    using k by (intro exI [of _ k]) simp
next
  assume "\<exists>x \<in> set d. t_id x = i"
  then obtain k where f: "find_index (\<lambda>x. t_id x = i) d = Some k"
    and k: "k < length d" "t_id (d ! k) = i" "\<forall>j < k. t_id (d ! j) \<noteq> i"
    using find_index_first [of d "\<lambda>x. t_id x = i"] by blast
  have "TaskMgr_done i d = (True, d[k := (d ! k)\<lparr>st := js ''completed''\<rparr>])"
    by (simp add: TaskMgr_done_def f)
  then show "\<exists>k < length d. t_id (d ! k) = i \<and> (\<forall>j < k. t_id (d ! j) \<noteq> i)
           \<and> fst (TaskMgr_done i d) = True
           \<and> length (snd (TaskMgr_done i d)) = length d
           \<and> snd (TaskMgr_done i d) ! k = (d ! k)\<lparr>st := js ''completed''\<rparr>
           \<and> (\<forall>j < length d. j \<noteq> k \<longrightarrow> snd (TaskMgr_done i d) ! j = d ! j)"
    using k by (intro exI [of _ k]) simp
qed

theorem completeTask_frame_witness:
  "TaskManager_completeTask (js ''b'') example_tasks =
     (True, [example_tasks ! 0, (example_tasks ! 1)\<lparr>task_status := COMPLETED\<rparr>,
             example_tasks ! 2])
   \<and> TaskManager_completeTask (js ''c'') example_tasks = (False, example_tasks)
   \<and> TaskMgr_done (js ''0.1'') example_d = (True, [(example_d ! 0)\<lparr>st := js ''completed''\<rparr>])
   \<and> TaskMgr_done (js ''0.2'') example_d = (False, example_d)"
  using completeTask_frame [of example_tasks "js ''c''" example_d "js ''0.2''"]
    completeTask_frame [of example_tasks "js ''b''" example_d "js ''0.1''"]
  by (simp add: example_tasks_def example_d_def js_def TaskManager_completeTask_def
      TaskMgr_done_def)

section \<open>The orders\<close>

text \<open>
  C10. \<open>InventarioReal.verificarStock\<close> returns true for every product id, so
  \<open>agregarProducto\<close> of an order built with it never takes the branch that throws
  \<open>Sin stock para el producto\<close>: it always adds the product and recomputes the total.
\<close>

theorem InventarioReal_always_in_stock:
  "InventarioReal_verificarStock productoId = True
   \<and> OrdenAsync_agregarProducto InventarioReal_verificarStock producto orden =
       Inr (OrdenAsync_recalcularTotal
              (orden\<lparr>oa_productos := oa_productos orden @ [producto]\<rparr>))
   \<and> (\<forall>e. OrdenAsync_agregarProducto InventarioReal_verificarStock producto orden \<noteq> Inl e)"
  by (simp add: InventarioReal_verificarStock_def OrdenAsync_agregarProducto_def)

subsection \<open>The totals of the two designs\<close>

lemma procesarCompra_returns: "procesarCompra g = Inr (calcularPrecioTotal g)"
proof -
  have "find (\<lambda>producto. \<not> Inventario_verificarStock (prod_id producto)) (g_productos g) = None"
    by (simp add: Inventario_verificarStock_def find_None_iff)
  then show ?thesis
    by (simp add: procesarCompra_def)
qed

lemma orden_reachable_total:
  assumes "orden_reachable verificarStock orden"
  shows "precioTotal orden =
     foldl (\<lambda>total prod. total + precio prod * cantidad prod) 0 (productos orden)"
  using assms
proof (induction rule: orden_reachable.induct)
  case orden_new
  show ?case by (simp add: new_Orden_def)
next
  case (orden_agregar orden producto orden')
  then show ?case
    by (auto simp: agregarProducto_def recalcularTotal_def split: if_splits)
qed

text \<open>
  The total of a \<open>GestorProcesoCompra\<close> is that of the products it had at its latest
  \<open>procesarCompra\<close> (of none, before the first): products added since are not in it.
\<close>

lemma gestor_reachable_total:
  assumes "gestor_reachable g"
  shows "\<exists>n \<le> length (g_productos g). g_precioTotal g =
     foldl (\<lambda>total prod. total + precio prod * cantidad prod) 0 (take n (g_productos g))"
  using assms
proof (induction rule: gestor_reachable.induct)
  case (gestor_new mail)
  show ?case by (simp add: new_GestorProcesoCompra_def)
next
  case (gestor_agregar g i nom pr cant)
  then obtain n where "n \<le> length (g_productos g)"
    "g_precioTotal g =
       foldl (\<lambda>total prod. total + precio prod * cantidad prod) 0 (take n (g_productos g))"
    by blast
  then show ?case
    by (intro exI [of _ n]) (simp add: Gestor_agregarProducto_def)
next
  case (gestor_procesar g g')
  then have "g' = calcularPrecioTotal g"
    by (simp add: procesarCompra_returns)
  then show ?case
    by (intro exI [of _ "length (g_productos g)"]) (simp add: calcularPrecioTotal_def)
qed

text \<open>
  C9, as amended. \<open>calcularPrecioTotal\<close> and \<open>recalcularTotal\<close> compute the same
  \<open>precioTotal\<close>: the left fold, from 0, of \<open>total + precio * cantidad\<close> over the
  products in order. \<open>getTotal\<close> is that fold of the order's products in every state
  of an order. \<open>procesarCompra\<close> always returns, and \<open>obtenerTotal\<close> read after it,
  with no \<open>agregarProducto\<close> in between, is that fold of the products; so then the two
  getters agree whenever the two objects hold the same sequence of products.
\<close>

theorem totals_are_the_same_fold:
  fixes g :: "('n::{zero,plus,times}) GestorProcesoCompra" and orden :: "'n Orden"
  shows "g_precioTotal (calcularPrecioTotal g) =
       foldl (\<lambda>total prod. total + precio prod * cantidad prod) 0 (g_productos g)
   \<and> precioTotal (recalcularTotal orden) =
       foldl (\<lambda>total prod. total + precio prod * cantidad prod) 0 (productos orden)
   \<and> (\<exists>g'. procesarCompra g = Inr g' \<and> g_productos g' = g_productos g
         \<and> obtenerTotal g' =
             foldl (\<lambda>total prod. total + precio prod * cantidad prod) 0 (g_productos g)
         \<and> (orden_reachable verificarStock orden \<longrightarrow>
              getTotal orden =
                foldl (\<lambda>total prod. total + precio prod * cantidad prod) 0 (productos orden)
              \<and> (g_productos g = productos orden \<longrightarrow> obtenerTotal g' = getTotal orden)))"
proof -
  have "procesarCompra g = Inr (calcularPrecioTotal g)"
    by (rule procesarCompra_returns)
  moreover have "orden_reachable verificarStock orden \<longrightarrow>
      getTotal orden =
        foldl (\<lambda>total prod. total + precio prod * cantidad prod) 0 (productos orden)"
    using orden_reachable_total [of verificarStock orden] by (simp add: getTotal_def)
  ultimately show ?thesis
    by (auto simp: calcularPrecioTotal_def recalcularTotal_def obtenerTotal_def)
qed

theorem totals_are_the_same_fold_witness:
  "orden_reachable InventarioDB_verificarStock \<lparr>productos = [laptop], precioTotal = 1200\<rparr>
   \<and> procesarCompra
        (Gestor_agregarProducto (js ''1'') (js ''Laptop'') 1200 1
           (new_GestorProcesoCompra (js ''c@e.com''))) =
       Inr \<lparr>g_productos = [laptop], g_precioTotal = 1200, g_emailCliente = js ''c@e.com''\<rparr>
   \<and> obtenerTotal
        \<lparr>g_productos = [laptop], g_precioTotal = 1200, g_emailCliente = js ''c@e.com''\<rparr> =
       getTotal \<lparr>productos = [laptop], precioTotal = (1200::int)\<rparr>"
proof -
  have a: "agregarProducto InventarioDB_verificarStock laptop new_Orden =
      Inr \<lparr>productos = [laptop], precioTotal = 1200\<rparr>"
    by (simp add: agregarProducto_def InventarioDB_verificarStock_def recalcularTotal_def
        new_Orden_def laptop_def)
  have r: "orden_reachable InventarioDB_verificarStock \<lparr>productos = [laptop], precioTotal = 1200\<rparr>"
    using orden_agregar [OF orden_new a] .
  have p: "g_productos (Gestor_agregarProducto (js ''1'') (js ''Laptop'') 1200 1
           (new_GestorProcesoCompra (js ''c@e.com''))) = [laptop]"
    by (simp add: Gestor_agregarProducto_def new_GestorProcesoCompra_def laptop_def)
  from totals_are_the_same_fold [of
      "Gestor_agregarProducto (js ''1'') (js ''Laptop'') 1200 1
         (new_GestorProcesoCompra (js ''c@e.com''))"
      "\<lparr>productos = [laptop], precioTotal = 1200\<rparr>" InventarioDB_verificarStock] r p
  show ?thesis
    by (auto simp: obtenerTotal_def getTotal_def Gestor_agregarProducto_def
        new_GestorProcesoCompra_def procesarCompra_returns calcularPrecioTotal_def laptop_def)
qed

text \<open>
  C9 without the amendment (the two getters agree on identical product sequences) fails
  in two ways. Before \<open>procesarCompra\<close> has run, \<open>obtenerTotal\<close> is still 0 while
  \<open>getTotal\<close> is 1200 on the same one product. And a product added after
  \<open>procesarCompra\<close> is in \<open>getTotal\<close> (1300) but not in \<open>obtenerTotal\<close> (1200).
\<close>

theorem obtenerTotal_is_stale:
  "agregarProducto InventarioDB_verificarStock laptop new_Orden =
     Inr \<lparr>productos = [laptop], precioTotal = 1200\<rparr>
   \<and> g_productos (Gestor_agregarProducto (js ''1'') (js ''Laptop'') 1200 1
        (new_GestorProcesoCompra (js ''c@e.com''))) = [laptop]
   \<and> obtenerTotal (Gestor_agregarProducto (js ''1'') (js ''Laptop'') 1200 1
        (new_GestorProcesoCompra (js ''c@e.com''))) = (0::int)
   \<and> getTotal \<lparr>productos = [laptop], precioTotal = (1200::int)\<rparr> = 1200
   \<and> procesarCompra (Gestor_agregarProducto (js ''1'') (js ''Laptop'') 1200 1
        (new_GestorProcesoCompra (js ''c@e.com''))) =
       Inr \<lparr>g_productos = [laptop], g_precioTotal = 1200, g_emailCliente = js ''c@e.com''\<rparr>
   \<and> agregarProducto InventarioDB_verificarStock mouse
        \<lparr>productos = [laptop], precioTotal = 1200\<rparr> =
       Inr \<lparr>productos = [laptop, mouse], precioTotal = 1300\<rparr>
   \<and> g_productos (Gestor_agregarProducto (js ''2'') (js ''Mouse'') 50 2
        \<lparr>g_productos = [laptop], g_precioTotal = 1200, g_emailCliente = js ''c@e.com''\<rparr>) =
       [laptop, mouse]
   \<and> obtenerTotal (Gestor_agregarProducto (js ''2'') (js ''Mouse'') 50 2
        \<lparr>g_productos = [laptop], g_precioTotal = 1200, g_emailCliente = js ''c@e.com''\<rparr>) =
       (1200::int)
   \<and> getTotal \<lparr>productos = [laptop, mouse], precioTotal = (1300::int)\<rparr> = 1300
   \<and> obtenerTotal (Gestor_agregarProducto (js ''1'') (js ''Laptop'') 1200 1
        (new_GestorProcesoCompra (js ''c@e.com'')))
       \<noteq> getTotal \<lparr>productos = [laptop], precioTotal = (1200::int)\<rparr>
   \<and> obtenerTotal (Gestor_agregarProducto (js ''2'') (js ''Mouse'') 50 2
        \<lparr>g_productos = [laptop], g_precioTotal = 1200, g_emailCliente = js ''c@e.com''\<rparr>)
       \<noteq> getTotal \<lparr>productos = [laptop, mouse], precioTotal = (1300::int)\<rparr>"
  by (simp add: Gestor_agregarProducto_def new_GestorProcesoCompra_def obtenerTotal_def
      getTotal_def laptop_def mouse_def agregarProducto_def InventarioDB_verificarStock_def
      recalcularTotal_def new_Orden_def procesarCompra_returns calcularPrecioTotal_def)

section \<open>The two task managers\<close>

text \<open>
  C6. \<open>TaskMgr.add\<close> refuses a task whose title is missing or empty: it returns false
  and leaves the list as it is. \<open>TaskManager.addTask\<close> has no such check: with an
  empty title it returns true and the list grows by one task.
\<close>

theorem addTask_takes_empty_title:
  "TaskMgr_add \<lparr>t_title = Some [], t_p = Some prio\<rparr> newid now d = (False, d)
   \<and> TaskMgr_add \<lparr>t_title = None, t_p = Some prio\<rparr> newid now d = (False, d)
   \<and> fst (TaskManager_addTask [] prio newid' now' tasks) = True
   \<and> length (snd (TaskManager_addTask [] prio newid' now' tasks)) = Suc (length tasks)
   \<and> TaskManager_addTask [] False newid' now' [] =
       (True, [\<lparr>task_id = newid', title = [], isPriority = False, task_status = PENDING,
                task_createdAt = now'\<rparr>])"
  by (simp add: TaskMgr_add_def TaskManager_addTask_def truthy_def Let_def)

text \<open>
  With a title that is not empty the two classes do the same: on lists that stand for
  the same tasks, \<open>add\<close> and \<open>addTask\<close>, and \<open>done\<close> and \<open>completeTask\<close>, return the
  same boolean and leave lists that again stand for the same tasks.
\<close>

lemma find_index_same_task:
  "list_all2 same_task d tasks \<Longrightarrow>
     find_index (\<lambda>x. t_id x = i) d = find_index (\<lambda>task. task_id task = i) tasks"
  by (induction d tasks rule: list_all2_induct) (auto simp: same_task_def)

lemma add_refines:
  assumes "list_all2 same_task d tasks" and "ttl \<noteq> []"
  shows "fst (TaskMgr_add \<lparr>t_title = Some ttl, t_p = Some prio\<rparr> newid now d) =
           fst (TaskManager_addTask ttl prio newid now' tasks)
       \<and> list_all2 same_task (snd (TaskMgr_add \<lparr>t_title = Some ttl, t_p = Some prio\<rparr> newid now d))
           (snd (TaskManager_addTask ttl prio newid now' tasks))"
  using assms
  by (auto simp: TaskMgr_add_def TaskManager_addTask_def truthy_def Let_def stored_def
      same_task_def list_all2_appendI)

lemma done_refines:
  assumes "list_all2 same_task d tasks"
  shows "fst (TaskMgr_done i d) = fst (TaskManager_completeTask i tasks)
       \<and> list_all2 same_task (snd (TaskMgr_done i d)) (snd (TaskManager_completeTask i tasks))"
proof (cases "find_index (\<lambda>task. task_id task = i) tasks")
  case None
  then show ?thesis
    using assms find_index_same_task [OF assms, of i]
    by (simp add: TaskMgr_done_def TaskManager_completeTask_def)
next
  case (Some k)
  then have k: "k < length tasks"
    by (simp add: find_index_Some)
  then have "same_task (d ! k) (tasks ! k)"
    using assms by (simp add: list_all2_nthD2)
  then have "same_task ((d ! k)\<lparr>st := js ''completed''\<rparr>)
               ((tasks ! k)\<lparr>task_status := COMPLETED\<rparr>)"
    by (simp add: same_task_def)
  then have "list_all2 same_task (d[k := (d ! k)\<lparr>st := js ''completed''\<rparr>])
          (tasks[k := (tasks ! k)\<lparr>task_status := COMPLETED\<rparr>])"
    using assms by (simp add: list_all2_update_cong)
  then show ?thesis
    using Some find_index_same_task [OF assms, of i]
    by (simp add: TaskMgr_done_def TaskManager_completeTask_def)
qed

end
